theory Spec2Isabelle
  imports
    Main
    "HOL-Library.Sublist"
    "HOL-Library.Multiset"
    "HOL-Library.Char_ord"
    "HOL-Library.List_Lexorder"
begin

section \<open>ddnswitch: release catalogue cache (core.go, fetchAvailableVersions)\<close>

subsection \<open>Strings (package strings)\<close>

text \<open>
  Go strings are byte sequences; \<^typ>\<open>string\<close> is a list of 8-bit characters and the
  order on it (\<^theory_text>\<open>Char_ord\<close>, \<^theory_text>\<open>List_Lexorder\<close>) is the bytewise
  lexicographic order that Go's \<^verbatim>\<open>>\<close> on strings computes.
\<close>

definition strings_TrimPrefix :: "string \<Rightarrow> string \<Rightarrow> string" where
  "strings_TrimPrefix s p = (if prefix p s then drop (length p) s else s)"

definition strings_Contains :: "string \<Rightarrow> string \<Rightarrow> bool" where
  "strings_Contains s substr = sublist substr s"

definition isSpace :: "char \<Rightarrow> bool" where
  \<comment> \<open>the ASCII white space of \<^verbatim>\<open>unicode.IsSpace\<close>: tab, LF, VT, FF, CR, space\<close>
  "isSpace c = (c \<in> set [CHR 0x09, CHR 0x0A, CHR 0x0B, CHR 0x0C, CHR 0x0D, CHR 0x20])"

definition strings_TrimSpace :: "string \<Rightarrow> string" where
  "strings_TrimSpace s = rev (dropWhile isSpace (rev (dropWhile isSpace s)))"

subsection \<open>Data model\<close>

record Asset =
  AssetName :: string
  BrowserDownloadURL :: string

record Release =
  TagName :: string
  Name :: string
  Assets :: "Asset list"
  PreRelease :: bool
  Draft :: bool

text \<open>
  Times and durations are integers counting nanoseconds (\<^verbatim>\<open>time.Time\<close> from the zero
  time, \<^verbatim>\<open>time.Duration\<close> as Go's int64). \<^verbatim>\<open>Time.Sub\<close> saturates at the ends of the
  int64 range, which is what makes the zero value of \<^verbatim>\<open>versionCacheTime\<close> look older
  than any TTL.
\<close>

definition maxDuration :: int where
  "maxDuration = 2 ^ 63 - 1"

definition minDuration :: int where
  "minDuration = - (2 ^ 63)"

definition time_Sub :: "int \<Rightarrow> int \<Rightarrow> int" where
  "time_Sub t u =
     (let d = t - u
      in if maxDuration < d then maxDuration else if d < minDuration then minDuration else d)"

definition time_Since :: "int \<Rightarrow> int \<Rightarrow> int" where
  \<comment> \<open>\<^verbatim>\<open>time.Since(t)\<close> evaluated when the clock reads \<open>now\<close>\<close>
  "time_Since now t = time_Sub now t"

definition cacheTTL :: int where
  "cacheTTL = 1 * (3600 * 1000000000)"

subsection \<open>Library interface: sort.Slice and Masterminds/semver\<close>

text \<open>
  \<^verbatim>\<open>sort.Slice\<close> and \<^verbatim>\<open>semver.NewVersion\<close> / \<^verbatim>\<open>GreaterThan\<close> are imported packages,
  not code of this repository. The model takes them as parameters; \<open>'v\<close> is the
  library's version type and \<open>None\<close> stands for \<^verbatim>\<open>err != nil\<close>.
\<close>

record 'v libs =
  sort_Slice :: "(Release \<Rightarrow> Release \<Rightarrow> bool) \<Rightarrow> Release list \<Rightarrow> Release list"
  semver_NewVersion :: "string \<Rightarrow> 'v option"
  semver_GreaterThan :: "'v \<Rightarrow> 'v \<Rightarrow> bool"

definition strict_weak_on :: "'a set \<Rightarrow> ('a \<Rightarrow> 'a \<Rightarrow> bool) \<Rightarrow> bool" where
  \<comment> \<open>the requirement \<^verbatim>\<open>sort.Interface\<close> puts on \<^verbatim>\<open>Less\<close>: a transitive ordering whose
      incomparability is transitive too\<close>
  "strict_weak_on A lt \<longleftrightarrow>
     (\<forall>a\<in>A. \<not> lt a a) \<and>
     (\<forall>a\<in>A. \<forall>b\<in>A. \<forall>c\<in>A. lt a b \<and> lt b c \<longrightarrow> lt a c) \<and>
     (\<forall>a\<in>A. \<forall>b\<in>A. \<forall>c\<in>A. \<not> lt a b \<and> \<not> lt b c \<longrightarrow> \<not> lt a c)"

definition sort_Slice_contract ::
  "((Release \<Rightarrow> Release \<Rightarrow> bool) \<Rightarrow> Release list \<Rightarrow> Release list) \<Rightarrow> bool" where
  \<comment> \<open>\<^verbatim>\<open>sort.Slice\<close> only swaps elements, and for a conforming \<open>less\<close> no element is left
      behind one that it is less than\<close>
  "sort_Slice_contract srt \<longleftrightarrow>
     (\<forall>lt xs. mset (srt lt xs) = mset xs) \<and>
     (\<forall>lt xs. strict_weak_on (set xs) lt \<longrightarrow> sorted_wrt (\<lambda>a b. \<not> lt b a) (srt lt xs))"

subsection \<open>A reference instance of the library interface\<close>

text \<open>
  Insertion sort in the shape of Go's \<^verbatim>\<open>insertionSortLessFunc\<close> (the element at \<open>i\<close>
  moves left past every neighbour it is less than), and versions of the plain form
  \<^verbatim>\<open>MAJOR[.MINOR[.PATCH]]\<close> compared component by component. They make the interface
  executable on concrete inputs.
\<close>

fun moveLeft :: "('a \<Rightarrow> 'a \<Rightarrow> bool) \<Rightarrow> 'a \<Rightarrow> 'a list \<Rightarrow> 'a list" where
  \<comment> \<open>the sorted prefix is held reversed: its head is the neighbour \<open>data[j-1]\<close>\<close>
  "moveLeft lt x [] = [x]"
| "moveLeft lt x (y # rs) = (if lt x y then y # moveLeft lt x rs else x # y # rs)"

definition insertionSort :: "('a \<Rightarrow> 'a \<Rightarrow> bool) \<Rightarrow> 'a list \<Rightarrow> 'a list" where
  "insertionSort lt xs = rev (foldl (\<lambda>rs x. moveLeft lt x rs) [] xs)"

definition isDigit :: "char \<Rightarrow> bool" where
  "isDigit c = (CHR ''0'' \<le> c \<and> c \<le> CHR ''9'')"

definition digitVal :: "char \<Rightarrow> nat" where
  "digitVal c = of_char c - of_char CHR ''0''"

definition parseNat :: "string \<Rightarrow> nat option" where
  "parseNat s =
     (if s \<noteq> [] \<and> list_all isDigit s
      then Some (foldl (\<lambda>n c. 10 * n + digitVal c) 0 s) else None)"

fun splitOn :: "char \<Rightarrow> string \<Rightarrow> string list" where
  \<comment> \<open>\<^verbatim>\<open>strings.Split(s, sep)\<close> for a one-byte separator: always at least one field\<close>
  "splitOn sep [] = [[]]"
| "splitOn sep (c # cs) =
     (if c = sep then [] # splitOn sep cs
      else (case splitOn sep cs of f # fs \<Rightarrow> (c # f) # fs | [] \<Rightarrow> [[c]]))"

definition plain_NewVersion :: "string \<Rightarrow> (nat \<times> nat \<times> nat) option" where
  "plain_NewVersion s =
     (case map parseNat (splitOn CHR ''.'' s) of
        [Some a] \<Rightarrow> Some (a, 0, 0)
      | [Some a, Some b] \<Rightarrow> Some (a, b, 0)
      | [Some a, Some b, Some c] \<Rightarrow> Some (a, b, c)
      | _ \<Rightarrow> None)"

definition plain_GreaterThan :: "nat \<times> nat \<times> nat \<Rightarrow> nat \<times> nat \<times> nat \<Rightarrow> bool" where
  "plain_GreaterThan v u =
     (case (v, u) of ((a, b, c), (a', b', c')) \<Rightarrow>
        a' < a \<or> (a' = a \<and> (b' < b \<or> (b' = b \<and> c' < c))))"

definition plain_libs :: "(nat \<times> nat \<times> nat) libs" where
  "plain_libs =
     \<lparr> sort_Slice = insertionSort,
       semver_NewVersion = plain_NewVersion,
       semver_GreaterThan = plain_GreaterThan \<rparr>"

subsection \<open>fetchAvailableVersions\<close>

datatype http_outcome =
    NewRequestFails
  | DoFails
  | Response int "Release list option"

text \<open>
  What the one HTTP exchange of a call does: \<^verbatim>\<open>http.NewRequestWithContext\<close> fails, or
  \<^verbatim>\<open>client.Do\<close> fails, or a response arrives with its status code and the result of
  decoding its body as \<^verbatim>\<open>[]Release\<close> (\<open>None\<close> when the decoder reports an error).
\<close>

datatype fetch_error =
    FailedToCreateRequest
  | FailedToFetchReleases
  | ReleasesAPIStatus int
  | FailedToDecodeReleases

record fetch_env =
  clockAtCheck :: int
  clockAtStore :: int
  httpOutcome :: http_outcome

text \<open>
  The package-level variables the function reads and writes. \<open>httpCalls\<close> is a
  ghost counter of \<^verbatim>\<open>client.Do\<close> invocations.
\<close>

record cache_world =
  versionCache :: "Release list"
  versionCacheTime :: int
  cachePrerelease :: bool
  includePrerelease :: bool
  httpCalls :: nat


definition keepRelease :: "bool \<Rightarrow> Release \<Rightarrow> bool" where
  \<comment> \<open>the condition of line 118\<close>
  "keepRelease incl release \<longleftrightarrow> \<not> Draft release \<and> (incl \<or> \<not> PreRelease release)"

definition tagVersion :: "'v libs \<Rightarrow> Release \<Rightarrow> 'v option" where
  \<comment> \<open>the version a release's tag parses to, as the comparison closure computes it\<close>
  "tagVersion lib r = semver_NewVersion lib (strings_TrimPrefix (TagName r) ''v'')"

definition releaseLess :: "'v libs \<Rightarrow> Release \<Rightarrow> Release \<Rightarrow> bool" where
  \<comment> \<open>the closure passed to \<^verbatim>\<open>sort.Slice\<close>, on the elements at \<open>i\<close> and \<open>j\<close>\<close>
  "releaseLess lib ri rj =
     (case (semver_NewVersion lib (strings_TrimPrefix (TagName ri) ''v''),
            semver_NewVersion lib (strings_TrimPrefix (TagName rj) ''v'')) of
        (Some vi, Some vj) \<Rightarrow> semver_GreaterThan lib vi vj
      | _ \<Rightarrow> TagName rj < TagName ri)"

definition validReleases :: "'v libs \<Rightarrow> bool \<Rightarrow> Release list \<Rightarrow> Release list" where
  \<comment> \<open>lines 115-132: filter, then sort newest first\<close>
  "validReleases lib incl releases =
     sort_Slice lib (releaseLess lib) (filter (keepRelease incl) releases)"

definition cacheHit :: "fetch_env \<Rightarrow> cache_world \<Rightarrow> bool" where
  \<comment> \<open>the condition of line 80\<close>
  "cacheHit env w \<longleftrightarrow>
     time_Since (clockAtCheck env) (versionCacheTime w) < cacheTTL \<and>
     0 < length (versionCache w) \<and>
     cachePrerelease w = includePrerelease w"

definition fetchAvailableVersions ::
  "'v libs \<Rightarrow> fetch_env \<Rightarrow> cache_world \<Rightarrow> (fetch_error + Release list) \<times> cache_world" where
  \<comment> \<open>core.go lines 77-142\<close>
  "fetchAvailableVersions lib env w =
     (if cacheHit env w then (Inr (versionCache w), w)
      else
        (case httpOutcome env of
           NewRequestFails \<Rightarrow> (Inl FailedToCreateRequest, w)
         | DoFails \<Rightarrow> (Inl FailedToFetchReleases, w\<lparr>httpCalls := httpCalls w + 1\<rparr>)
         | Response status body \<Rightarrow>
             (let w1 = w\<lparr>httpCalls := httpCalls w + 1\<rparr>
              in if status \<noteq> 200 then (Inl (ReleasesAPIStatus status), w1)
                 else
                   (case body of
                      None \<Rightarrow> (Inl FailedToDecodeReleases, w1)
                    | Some releases \<Rightarrow>
                        (let valid = validReleases lib (includePrerelease w) releases
                         in (Inr valid,
                             w1\<lparr>versionCache := valid,
                                versionCacheTime := clockAtStore env,
                                cachePrerelease := includePrerelease w\<rparr>))))))"

definition mkRelease :: "string \<Rightarrow> bool \<Rightarrow> bool \<Rightarrow> Release" where
  "mkRelease tag pre draft =
     \<lparr> TagName = tag, Name = tag, Assets = [], PreRelease = pre, Draft = draft \<rparr>"

subsection \<open>The order of the snapshot, as the specification words it\<close>

definition newerFirst :: "'v libs \<Rightarrow> Release \<Rightarrow> Release \<Rightarrow> bool" where
  \<comment> \<open>should \<open>a\<close> stand before \<open>b\<close>? By greater semantic version when both tags parse,
      by greater tag string as soon as one of the two does not\<close>
  "newerFirst lib a b \<longleftrightarrow>
     (if tagVersion lib a \<noteq> None \<and> tagVersion lib b \<noteq> None
      then semver_GreaterThan lib (the (tagVersion lib a)) (the (tagVersion lib b))
      else TagName b < TagName a)"

section \<open>ddnswitch: installing, activating and removing versions (core.go)\<close>

unbundle bit_operations_syntax

subsection \<open>The machine and the world\<close>

text \<open>
  The functions of core.go act on the file system, the network and child processes.
  The model splits what they see into a \<open>machine\<close>, which a run cannot change
  (platform, environment variables, what the network answers, what a program prints),
  and a \<open>world\<close>, which it threads through every call (the file system, standard
  output, and two ghost logs: the URLs requested and the number of calls made through
  the \<^verbatim>\<open>installVersion\<close> variable).

  \<^verbatim>\<open>debugLog\<close> writes only under \<^verbatim>\<open>--debug\<close> and has no other effect; the model is of a
  run without it. The progress lines of \<^verbatim>\<open>progressReader\<close> are left out of \<open>stdout\<close>.
\<close>

datatype errno =
    ENOENT | EEXIST | EACCES | ENOTDIR | EISDIR | ELOOP | EINVAL | ENOTEMPTY | ENOTSUP
  | ENAMETOOLONG

datatype node =
    Dir bool
  | File string nat
  | Symlink string

text \<open>
  A directory carries whether this process may create and remove entries in it; a
  regular file carries its bytes and its permission bits; a symbolic link carries its
  target as written. The file system is an association list from cleaned path names to
  nodes: a path is looked up as a whole and symbolic links are followed at its last
  component only. For a path without an entry the error is the one the walk from the
  root meets first: \<open>ENOTDIR\<close> below something that is not a directory,
  \<open>ENAMETOOLONG\<close> at a name of more than 255 bytes, \<open>ENOENT\<close> at a name that is
  missing. Of these only \<open>ENOENT\<close> satisfies \<^verbatim>\<open>os.IsNotExist\<close>.
\<close>

type_synonym filesystem = "(string \<times> node) list"

datatype exec_result = ExecError | ExecOk string

datatype http_response =
    HttpFails
  | HttpResponse int string
  | HttpBodyFails int string

text \<open>
  \<open>HttpFails\<close>: \<^verbatim>\<open>http.Get\<close> returns an error. \<open>HttpResponse status body\<close>: a response
  whose body reads to its end. \<open>HttpBodyFails status received\<close>: a response whose body
  breaks off with a read error after \<open>received\<close>.
\<close>

record machine =
  GOOS :: string
  GOARCH :: string
  userHomeDir :: "string option"
  PATH :: string
  symlinksSupported :: bool
  createMode :: nat
  httpGet :: "string \<Rightarrow> http_response"
  runVersion :: "string \<Rightarrow> exec_result"
  runBareDdn :: "filesystem \<Rightarrow> exec_result"

text \<open>
  \<open>createMode\<close> is the mode \<^verbatim>\<open>os.Create\<close> gives a new file (0666 less the umask);
  \<open>runVersion bytes\<close> is what a program with these bytes does when run with the
  argument \<^verbatim>\<open>version\<close>; \<open>runBareDdn\<close> is what \<^verbatim>\<open>exec.Command("ddn", "version")\<close> does,
  which depends on the search path rules of the platform.
\<close>

record world =
  fs :: filesystem
  stdout :: "string list"
  httpLog :: "string list"
  installCalls :: nat

datatype error =
    Errno errno
  | HomeDirError
  | HTTPError
  | ExecFailure
  | Msg string
  | MsgStatus string int
  | Wrap string error

text \<open>
  \<open>Msg\<close> and \<open>MsgStatus\<close> are \<^verbatim>\<open>fmt.Errorf\<close> without a wrapped error (the second with
  the status code it formats), \<open>Wrap msg err\<close> is \<^verbatim>\<open>fmt.Errorf(msg + ": %w", err)\<close>.
\<close>

definition binName :: string where
  "binName = ''ddn''"

definition installDir :: string where
  "installDir = ''.ddnswitch''"

definition println :: "string \<Rightarrow> world \<Rightarrow> world" where
  "println s w = w\<lparr>stdout := stdout w @ [s]\<rparr>"

subsection \<open>Path names (package filepath)\<close>

text \<open>
  The lexical rules of \<^verbatim>\<open>filepath.Clean\<close>, \<^verbatim>\<open>Join\<close> and \<^verbatim>\<open>Dir\<close>, with the separator of
  the platform. Volume names of Windows paths are not modelled.
\<close>

definition Separator :: "machine \<Rightarrow> char" where
  "Separator m = (if GOOS m = ''windows'' then CHR 0x5C else CHR ''/'')"

definition PathListSeparator :: "machine \<Rightarrow> char" where
  "PathListSeparator m = (if GOOS m = ''windows'' then CHR '';'' else CHR '':'')"

definition IsPathSeparator :: "machine \<Rightarrow> char \<Rightarrow> bool" where
  "IsPathSeparator m c \<longleftrightarrow> c = CHR ''/'' \<or> (GOOS m = ''windows'' \<and> c = CHR 0x5C)"

fun splitWhere :: "(char \<Rightarrow> bool) \<Rightarrow> string \<Rightarrow> string list" where
  "splitWhere isSep [] = [[]]"
| "splitWhere isSep (c # cs) =
     (if isSep c then [] # splitWhere isSep cs
      else (case splitWhere isSep cs of f # rest \<Rightarrow> (c # f) # rest | [] \<Rightarrow> [[c]]))"

fun joinWith :: "string \<Rightarrow> string list \<Rightarrow> string" where
  "joinWith sep [] = []"
| "joinWith sep [x] = x"
| "joinWith sep (x # y # zs) = x @ sep @ joinWith sep (y # zs)"

fun cleanComps :: "bool \<Rightarrow> string list \<Rightarrow> string list \<Rightarrow> string list" where
  \<comment> \<open>\<open>out\<close> is the output so far, last component first\<close>
  "cleanComps rooted out [] = rev out"
| "cleanComps rooted out (c # cs) =
     (if c = [] \<or> c = ''.'' then cleanComps rooted out cs
      else if c = ''..'' then
        (case out of
           [] \<Rightarrow> if rooted then cleanComps rooted [] cs else cleanComps rooted [''..''] cs
         | x # rest \<Rightarrow>
             if x = ''..'' then cleanComps rooted (''..'' # out) cs
             else cleanComps rooted rest cs)
      else cleanComps rooted (c # out) cs)"

definition filepath_Clean :: "machine \<Rightarrow> string \<Rightarrow> string" where
  "filepath_Clean m p =
     (if p = [] then ''.''
      else
        (let rooted = IsPathSeparator m (hd p);
             out = (if rooted then [Separator m] else []) @
                   joinWith [Separator m]
                     (cleanComps rooted [] (splitWhere (IsPathSeparator m) p))
         in if out = [] then ''.'' else out))"

definition filepath_Join :: "machine \<Rightarrow> string list \<Rightarrow> string" where
  "filepath_Join m elems =
     (case dropWhile (\<lambda>e. e = []) elems of
        [] \<Rightarrow> []
      | e # es \<Rightarrow> filepath_Clean m (joinWith [Separator m] (e # es)))"

definition filepath_Dir :: "machine \<Rightarrow> string \<Rightarrow> string" where
  "filepath_Dir m p =
     filepath_Clean m (rev (dropWhile (\<lambda>c. \<not> IsPathSeparator m c) (rev p)))"

definition filepath_IsAbs :: "machine \<Rightarrow> string \<Rightarrow> bool" where
  "filepath_IsAbs m p =
     (if GOOS m = ''windows''
      then (case p of
              d # c # s # _ \<Rightarrow>
                (c = CHR '':'' \<and> IsPathSeparator m s) \<or> (IsPathSeparator m d \<and> IsPathSeparator m c)
            | _ \<Rightarrow> False)
      else (case p of c # _ \<Rightarrow> c = CHR ''/'' | [] \<Rightarrow> False))"

subsection \<open>The file system (package os)\<close>

definition lookup :: "filesystem \<Rightarrow> string \<Rightarrow> node option" where
  "lookup fsys k = map_of fsys k"

definition erase :: "string \<Rightarrow> filesystem \<Rightarrow> filesystem" where
  "erase k fsys = filter (\<lambda>(q, n). q \<noteq> k) fsys"

definition store :: "string \<Rightarrow> node \<Rightarrow> filesystem \<Rightarrow> filesystem" where
  "store k n fsys = (k, n) # erase k fsys"

definition under :: "machine \<Rightarrow> string \<Rightarrow> string \<Rightarrow> bool" where
  \<comment> \<open>\<open>q\<close> is \<open>k\<close> or lies below it\<close>
  "under m k q \<longleftrightarrow>
     q = k \<or> prefix (if k \<noteq> [] \<and> last k = Separator m then k else k @ [Separator m]) q"

definition eraseTree :: "machine \<Rightarrow> string \<Rightarrow> filesystem \<Rightarrow> filesystem" where
  "eraseTree m k fsys = filter (\<lambda>(q, n). \<not> under m k q) fsys"

definition hasChildren :: "machine \<Rightarrow> string \<Rightarrow> filesystem \<Rightarrow> bool" where
  "hasChildren m k fsys = list_ex (\<lambda>(q, n). q \<noteq> k \<and> under m k q) fsys"

definition pathKey :: "machine \<Rightarrow> string \<Rightarrow> string" where
  "pathKey m p = filepath_Clean m p"

definition maxSymlinks :: nat where
  "maxSymlinks = 40"

fun resolveKey :: "machine \<Rightarrow> filesystem \<Rightarrow> nat \<Rightarrow> string \<Rightarrow> errno + string" where
  \<comment> \<open>follow the links at \<open>k\<close>; a relative target is taken from the directory of the link\<close>
  "resolveKey m fsys 0 k = Inl ELOOP"
| "resolveKey m fsys (Suc n) k =
     (case lookup fsys k of
        Some (Symlink t) \<Rightarrow>
          resolveKey m fsys n
            (if filepath_IsAbs m t then pathKey m t
             else pathKey m (filepath_Join m [filepath_Dir m k, t]))
      | _ \<Rightarrow> Inr k)"

definition followKey :: "machine \<Rightarrow> filesystem \<Rightarrow> string \<Rightarrow> errno + string" where
  "followKey m fsys p = resolveKey m fsys (Suc maxSymlinks) (pathKey m p)"

definition baseName :: "machine \<Rightarrow> string \<Rightarrow> string" where
  \<comment> \<open>the last name of a path\<close>
  "baseName m p = rev (takeWhile (\<lambda>c. \<not> IsPathSeparator m c) (rev p))"

definition NAME_MAX :: nat where
  "NAME_MAX = 255"

definition nameTooLong :: "machine \<Rightarrow> string \<Rightarrow> bool" where
  "nameTooLong m k \<longleftrightarrow> NAME_MAX < length (baseName m k)"

definition nodeAtKey :: "machine \<Rightarrow> filesystem \<Rightarrow> string \<Rightarrow> errno + node" where
  \<comment> \<open>what stands at \<open>k\<close>, links followed\<close>
  "nodeAtKey m fsys k =
     (case resolveKey m fsys (Suc maxSymlinks) k of
        Inl e \<Rightarrow> Inl e
      | Inr k' \<Rightarrow> (case lookup fsys k' of None \<Rightarrow> Inl ENOENT | Some n \<Rightarrow> Inr n))"

fun walkTo :: "machine \<Rightarrow> filesystem \<Rightarrow> nat \<Rightarrow> string \<Rightarrow> errno option" where
  \<comment> \<open>the first error on the way from the root (or from \<^verbatim>\<open>.\<close>) down to \<open>k\<close>, name by
      name: the directory above must be reached and be a directory, the name must not
      be too long, and it must be there; the third argument bounds the climb by the
      length of the path\<close>
  "walkTo m fsys 0 k = None"
| "walkTo m fsys (Suc n) k =
     (if filepath_Dir m k = k then None
      else
        (case walkTo m fsys n (filepath_Dir m k) of
           Some e \<Rightarrow> Some e
         | None \<Rightarrow>
             (case nodeAtKey m fsys (filepath_Dir m k) of
                Inl e \<Rightarrow> Some e
              | Inr (Dir wr) \<Rightarrow>
                  if nameTooLong m k then Some ENAMETOOLONG
                  else if lookup fsys k = None then Some ENOENT
                  else None
              | Inr _ \<Rightarrow> Some ENOTDIR)))"

definition absentErrno :: "machine \<Rightarrow> filesystem \<Rightarrow> string \<Rightarrow> errno" where
  \<comment> \<open>the error of a system call on the path \<open>k\<close>, which has no entry\<close>
  "absentErrno m fsys k = (case walkTo m fsys (length k) k of Some e \<Rightarrow> e | None \<Rightarrow> ENOENT)"

definition os_Stat :: "machine \<Rightarrow> world \<Rightarrow> string \<Rightarrow> errno + node" where
  "os_Stat m w p =
     (case followKey m (fs w) p of
        Inl e \<Rightarrow> Inl e
      | Inr k \<Rightarrow>
          (case lookup (fs w) k of
             None \<Rightarrow> Inl (absentErrno m (fs w) k)
           | Some n \<Rightarrow> Inr n))"

definition statKey :: "machine \<Rightarrow> world \<Rightarrow> string \<Rightarrow> errno + node" where
  \<comment> \<open>\<open>os_Stat\<close> on a path that is already clean\<close>
  "statKey m w k =
     (case resolveKey m (fs w) (Suc maxSymlinks) k of
        Inl e \<Rightarrow> Inl e
      | Inr k' \<Rightarrow>
          (case lookup (fs w) k' of
             None \<Rightarrow> Inl (absentErrno m (fs w) k')
           | Some n \<Rightarrow> Inr n))"


definition os_IsNotExist :: "errno + 'a \<Rightarrow> bool" where
  \<comment> \<open>\<^verbatim>\<open>os.IsNotExist(err)\<close> on the error a call returned, if any\<close>
  "os_IsNotExist r \<longleftrightarrow> (case r of Inl e \<Rightarrow> e = ENOENT | Inr _ \<Rightarrow> False)"



definition parentCheck :: "machine \<Rightarrow> filesystem \<Rightarrow> string \<Rightarrow> errno option" where
  \<comment> \<open>may an entry be removed from the directory of \<open>k\<close>?\<close>
  "parentCheck m fsys k =
     (case lookup fsys (filepath_Dir m k) of
        Some (Dir True) \<Rightarrow> None
      | Some (Dir False) \<Rightarrow> Some EACCES
      | Some _ \<Rightarrow> Some ENOTDIR
      | None \<Rightarrow> Some ENOENT)"

definition createCheck :: "machine \<Rightarrow> filesystem \<Rightarrow> string \<Rightarrow> errno option" where
  \<comment> \<open>may an entry named \<open>k\<close> be added to its directory?\<close>
  "createCheck m fsys k =
     (case lookup fsys (filepath_Dir m k) of
        Some (Dir wr) \<Rightarrow>
          if nameTooLong m k then Some ENAMETOOLONG
          else if wr then None
          else Some EACCES
      | Some _ \<Rightarrow> Some ENOTDIR
      | None \<Rightarrow> Some ENOENT)"

definition os_Remove :: "machine \<Rightarrow> string \<Rightarrow> world \<Rightarrow> errno option \<times> world" where
  "os_Remove m p w =
     (let k = pathKey m p
      in case lookup (fs w) k of
           None \<Rightarrow> (Some (absentErrno m (fs w) k), w)
         | Some n \<Rightarrow>
             (case parentCheck m (fs w) k of
                Some e \<Rightarrow> (Some e, w)
              | None \<Rightarrow>
                  if (case n of Dir wr \<Rightarrow> hasChildren m k (fs w) | _ \<Rightarrow> False)
                  then (Some ENOTEMPTY, w)
                  else (None, w\<lparr>fs := erase k (fs w)\<rparr>)))"

definition os_RemoveAll :: "machine \<Rightarrow> string \<Rightarrow> world \<Rightarrow> errno option \<times> world" where
  \<comment> \<open>nothing to do for a path that does not exist, the error of the walk for a path
      that cannot be reached; a removal that is refused removes nothing\<close>
  "os_RemoveAll m p w =
     (let k = pathKey m p
      in case lookup (fs w) k of
           None \<Rightarrow>
             if absentErrno m (fs w) k = ENOENT then (None, w)
             else (Some (absentErrno m (fs w) k), w)
         | Some n \<Rightarrow>
             (case parentCheck m (fs w) k of
                Some e \<Rightarrow> (Some e, w)
              | None \<Rightarrow> (None, w\<lparr>fs := eraseTree m k (fs w)\<rparr>)))"

definition os_Mkdir :: "machine \<Rightarrow> string \<Rightarrow> world \<Rightarrow> errno option \<times> world" where
  "os_Mkdir m k w =
     (case lookup (fs w) k of
        Some n \<Rightarrow> (Some EEXIST, w)
      | None \<Rightarrow>
          (case createCheck m (fs w) k of
             Some e \<Rightarrow> (Some e, w)
           | None \<Rightarrow> (None, w\<lparr>fs := store k (Dir True) (fs w)\<rparr>)))"

fun mkdirAllKey :: "machine \<Rightarrow> nat \<Rightarrow> string \<Rightarrow> world \<Rightarrow> errno option \<times> world" where
  \<comment> \<open>\<^verbatim>\<open>os.MkdirAll\<close>: done if the path is a directory, else make the parent, then the
      path; the first argument bounds the climb by the length of the path\<close>
  "mkdirAllKey m n k w =
     (case statKey m w k of
        Inr (Dir wr) \<Rightarrow> (None, w)
      | Inr _ \<Rightarrow> (Some ENOTDIR, w)
      | Inl e \<Rightarrow>
          (case n of
             0 \<Rightarrow> os_Mkdir m k w
           | Suc n' \<Rightarrow>
               if filepath_Dir m k = k then os_Mkdir m k w
               else
                 (case mkdirAllKey m n' (filepath_Dir m k) w of
                    (Some e', w1) \<Rightarrow> (Some e', w1)
                  | (None, w1) \<Rightarrow> os_Mkdir m k w1)))"

declare mkdirAllKey.simps [simp del]

definition os_MkdirAll :: "machine \<Rightarrow> string \<Rightarrow> world \<Rightarrow> errno option \<times> world" where
  "os_MkdirAll m p w = mkdirAllKey m (length (pathKey m p)) (pathKey m p) w"

definition os_Create :: "machine \<Rightarrow> string \<Rightarrow> world \<Rightarrow> (errno + string) \<times> world" where
  \<comment> \<open>the handle returned is the key of the file that was opened\<close>
  "os_Create m p w =
     (case followKey m (fs w) p of
        Inl e \<Rightarrow> (Inl e, w)
      | Inr k \<Rightarrow>
          (case lookup (fs w) k of
             Some (Dir wr) \<Rightarrow> (Inl EISDIR, w)
           | Some (Symlink t) \<Rightarrow> (Inl ELOOP, w)
           | Some (File c md) \<Rightarrow>
               if md AND 128 = 0 then (Inl EACCES, w)
               else (Inr k, w\<lparr>fs := store k (File [] md) (fs w)\<rparr>)
           | None \<Rightarrow>
               (case createCheck m (fs w) k of
                  Some e \<Rightarrow> (Inl e, w)
                | None \<Rightarrow> (Inr k, w\<lparr>fs := store k (File [] (createMode m)) (fs w)\<rparr>))))"

definition file_Write :: "string \<Rightarrow> string \<Rightarrow> world \<Rightarrow> world" where
  \<comment> \<open>append to the open file \<open>h\<close>\<close>
  "file_Write h bytes w =
     (case lookup (fs w) h of
        Some (File c md) \<Rightarrow> w\<lparr>fs := store h (File (c @ bytes) md) (fs w)\<rparr>
      | _ \<Rightarrow> w)"

definition os_Chmod :: "machine \<Rightarrow> string \<Rightarrow> nat \<Rightarrow> world \<Rightarrow> errno option \<times> world" where
  "os_Chmod m p md w =
     (case followKey m (fs w) p of
        Inl e \<Rightarrow> (Some e, w)
      | Inr k \<Rightarrow>
          (case lookup (fs w) k of
             None \<Rightarrow> (Some (absentErrno m (fs w) k), w)
           | Some (File c old) \<Rightarrow> (None, w\<lparr>fs := store k (File c md) (fs w)\<rparr>)
           | Some (Dir wr) \<Rightarrow> (None, w\<lparr>fs := store k (Dir (md AND 128 \<noteq> 0)) (fs w)\<rparr>)
           | Some (Symlink t) \<Rightarrow> (Some ELOOP, w)))"


definition exec_version :: "machine \<Rightarrow> world \<Rightarrow> string \<Rightarrow> exec_result" where
  \<comment> \<open>\<^verbatim>\<open>exec.Command(p, "version").CombinedOutput()\<close>\<close>
  "exec_version m w p =
     (case os_Stat m w p of
        Inr (File c md) \<Rightarrow>
          if GOOS m \<noteq> ''windows'' \<and> md AND 73 = 0 then ExecError else runVersion m c
      | _ \<Rightarrow> ExecError)"

definition http_Get :: "machine \<Rightarrow> string \<Rightarrow> world \<Rightarrow> http_response \<times> world" where
  "http_Get m url w = (httpGet m url, w\<lparr>httpLog := httpLog w @ [url]\<rparr>)"

subsection \<open>Install directory\<close>

definition getHomeDir :: "machine \<Rightarrow> error + string" where
  \<comment> \<open>core.go lines 43-49\<close>
  "getHomeDir m = (case userHomeDir m of None \<Rightarrow> Inl HomeDirError | Some home \<Rightarrow> Inr home)"

definition getInstallDir_default :: "machine \<Rightarrow> error + string" where
  \<comment> \<open>the initial value of the variable \<^verbatim>\<open>getInstallDir\<close> (lines 52-58)\<close>
  "getInstallDir_default m =
     (case getHomeDir m of
        Inl err \<Rightarrow> Inl err
      | Inr home \<Rightarrow> Inr (filepath_Join m [home, installDir]))"

text \<open>
  \<^verbatim>\<open>getInstallDir\<close>, \<^verbatim>\<open>installVersion\<close>, \<^verbatim>\<open>downloadBinary\<close> and \<^verbatim>\<open>getSymlinkPath\<close> are
  package-level variables of function type, which the tests reassign. The functions
  that call them take their current values as arguments: \<open>gid\<close> (what
  \<^verbatim>\<open>getInstallDir()\<close> returns), \<open>iv\<close>, \<open>dl\<close> and \<open>gsp\<close>.
\<close>

definition ensureInstallDir :: "machine \<Rightarrow> error + string \<Rightarrow> world \<Rightarrow> error option \<times> world" where
  \<comment> \<open>lines 60-66\<close>
  "ensureInstallDir m gid w =
     (case gid of
        Inl err \<Rightarrow> (Some err, w)
      | Inr installPath \<Rightarrow>
          (case os_MkdirAll m installPath w of
             (Some e, w1) \<Rightarrow> (Some (Errno e), w1)
           | (None, w1) \<Rightarrow> (None, w1)))"

definition versionDirOf :: "machine \<Rightarrow> string \<Rightarrow> string \<Rightarrow> string" where
  "versionDirOf m installPath version = filepath_Join m [installPath, version]"

definition withExe :: "machine \<Rightarrow> string \<Rightarrow> string" where
  "withExe m p = (if GOOS m = ''windows'' then p @ ''.exe'' else p)"

definition binPathOf :: "machine \<Rightarrow> string \<Rightarrow> string \<Rightarrow> string" where
  "binPathOf m installPath version =
     withExe m (filepath_Join m [versionDirOf m installPath version, binName])"

subsection \<open>downloadBinaryImpl and installVersionImpl\<close>

definition downloadBinaryImpl :: "machine \<Rightarrow> string \<Rightarrow> string \<Rightarrow> world \<Rightarrow> error option \<times> world" where
  \<comment> \<open>lines 445-486\<close>
  "downloadBinaryImpl m url destPath w =
     (let w0 = println (''Downloading from: '' @ url) w
      in case http_Get m url w0 of
           (HttpFails, w1) \<Rightarrow> (Some (Wrap ''HTTP request failed'' HTTPError), w1)
         | (HttpResponse status body, w1) \<Rightarrow>
             if status \<noteq> 200 then (Some (MsgStatus ''failed to download: HTTP status'' status), w1)
             else
               (case os_Create m destPath w1 of
                  (Inl e, w2) \<Rightarrow> (Some (Wrap ''failed to create output file'' (Errno e)), w2)
                | (Inr outFile, w2) \<Rightarrow>
                    (let w3 = file_Write outFile body w2
                     in case (if GOOS m \<noteq> ''windows'' then os_Chmod m destPath 493 w3 else (None, w3)) of
                          (Some e, w4) \<Rightarrow> (Some (Wrap ''failed to set executable permissions'' (Errno e)), w4)
                        | (None, w4) \<Rightarrow> (None, println ''Download completed successfully!'' w4)))
         | (HttpBodyFails status received, w1) \<Rightarrow>
             if status \<noteq> 200 then (Some (MsgStatus ''failed to download: HTTP status'' status), w1)
             else
               (case os_Create m destPath w1 of
                  (Inl e, w2) \<Rightarrow> (Some (Wrap ''failed to create output file'' (Errno e)), w2)
                | (Inr outFile, w2) \<Rightarrow>
                    (Some (Wrap ''failed to write binary data'' HTTPError), file_Write outFile received w2)))"

definition downloadURLOf :: "machine \<Rightarrow> string \<Rightarrow> string" where
  \<comment> \<open>lines 402-403\<close>
  "downloadURLOf m version =
     ''https://graphql-engine-cdn.hasura.io/ddn/cli/v4/'' @ version @ ''/cli-ddn'' @
       (''-'' @ GOOS m @ ''-'' @ GOARCH m)"

definition downloadPhase ::
  "machine \<Rightarrow> error + string \<Rightarrow> (string \<Rightarrow> string \<Rightarrow> world \<Rightarrow> error option \<times> world) \<Rightarrow>
   string \<Rightarrow> world \<Rightarrow> (error + string) \<times> world" where
  \<comment> \<open>installVersionImpl up to and including the download (lines 363-416); on success
      the path of the binary\<close>
  "downloadPhase m gid dl version w =
     (case ensureInstallDir m gid w of
        (Some err, w0) \<Rightarrow> (Inl err, w0)
      | (None, w0) \<Rightarrow>
          if GOOS m = ''linux'' \<and> (GOARCH m = ''arm64'' \<or> GOARCH m = ''arm'')
          then (Inl (Msg ''DDN CLI does not support ARM-based Linux systems''), w0)
          else
            (case gid of
               Inl err \<Rightarrow> (Inl err, w0)
             | Inr installPath \<Rightarrow>
                 (let versionDir = filepath_Join m [installPath, version]
                  in case (case os_Stat m w0 versionDir of
                             Inr info \<Rightarrow> os_RemoveAll m versionDir w0
                           | Inl e \<Rightarrow> (None, w0)) of
                       (Some e, w1) \<Rightarrow>
                         (Inl (Wrap ''failed to clean up existing installation'' (Errno e)), w1)
                     | (None, w1) \<Rightarrow>
                         (case os_MkdirAll m versionDir w1 of
                            (Some e, w2) \<Rightarrow>
                              (Inl (Wrap (''failed to create directory for version '' @ version) (Errno e)), w2)
                          | (None, w2) \<Rightarrow>
                              (let downloadURL = downloadURLOf m version;
                                   binPath = withExe m (filepath_Join m [versionDir, binName])
                               in case dl downloadURL binPath w2 of
                                    (Some err, w3) \<Rightarrow>
                                      (Inl (Wrap (''failed to download binary for version '' @ version) err), w3)
                                  | (None, w3) \<Rightarrow> (Inr binPath, w3))))))"

definition verifyDownloaded :: "machine \<Rightarrow> string \<Rightarrow> string \<Rightarrow> world \<Rightarrow> error option \<times> world" where
  \<comment> \<open>installVersionImpl from the verification on (lines 418-438)\<close>
  "verifyDownloaded m version binPath w =
     (case exec_version m w binPath of
        ExecError \<Rightarrow> (Some (Wrap ''failed to verify downloaded binary'' ExecFailure), w)
      | ExecOk output \<Rightarrow>
          (let installedVersion = strings_TrimSpace output
           in if \<not> strings_Contains installedVersion version
              then (Some (Msg (''downloaded binary reports version '' @ installedVersion @
                               '', expected '' @ version)), w)
              else (None, println (''Successfully installed DDN CLI '' @ version) w)))"

definition installVersionImpl ::
  "machine \<Rightarrow> error + string \<Rightarrow> (string \<Rightarrow> string \<Rightarrow> world \<Rightarrow> error option \<times> world) \<Rightarrow>
   string \<Rightarrow> world \<Rightarrow> error option \<times> world" where
  \<comment> \<open>lines 363-439\<close>
  "installVersionImpl m gid dl version w =
     (case downloadPhase m gid dl version w of
        (Inl err, w1) \<Rightarrow> (Some err, w1)
      | (Inr binPath, w1) \<Rightarrow> verifyDownloaded m version binPath w1)"

subsection \<open>getSymlinkPathImpl\<close>

fun matchInPath :: "string \<Rightarrow> string list \<Rightarrow> string option" where
  \<comment> \<open>the inner loop: the first entry of the search list equal to \<open>preferred\<close>\<close>
  "matchInPath preferred [] = None"
| "matchInPath preferred (pathDir # rest) =
     (if pathDir = preferred then Some pathDir else matchInPath preferred rest)"

fun findPreferred :: "string list \<Rightarrow> string list \<Rightarrow> string option" where
  \<comment> \<open>the outer loop, left by \<^verbatim>\<open>goto found\<close> at the first match\<close>
  "findPreferred [] pathDirs = None"
| "findPreferred (preferred # others) pathDirs =
     (case matchInPath preferred pathDirs of
        Some pathDir \<Rightarrow> Some pathDir
      | None \<Rightarrow> findPreferred others pathDirs)"

fun firstWritable :: "machine \<Rightarrow> string list \<Rightarrow> world \<Rightarrow> string \<times> world" where
  \<comment> \<open>the second loop; the result is \<open>symlinkDir\<close>, empty when the loop runs out\<close>
  "firstWritable m [] w = ([], w)"
| "firstWritable m (pathDir # rest) w =
     (if pathDir = [] \<or> pathDir = ''.'' then firstWritable m rest w
      else
        (let testFile = filepath_Join m [pathDir, ''.ddnswitch_test'']
         in case os_Create m testFile w of
              (Inr file, w1) \<Rightarrow> (pathDir, snd (os_Remove m testFile w1))
            | (Inl err, w1) \<Rightarrow> firstWritable m rest w1))"

definition preferredDirs :: "machine \<Rightarrow> string \<Rightarrow> string list" where
  "preferredDirs m homeDir =
     [filepath_Join m [homeDir, ''bin''],
      filepath_Join m [homeDir, ''.local'', ''bin''],
      ''/usr/local/bin'']"

definition getSymlinkPathImpl :: "machine \<Rightarrow> string \<Rightarrow> world \<Rightarrow> (error + string) \<times> world" where
  \<comment> \<open>lines 628-682\<close>
  "getSymlinkPathImpl m homeDir w =
     (let pathDirs = splitOn (PathListSeparator m) (PATH m)
      in case (case findPreferred (preferredDirs m homeDir) pathDirs of
                 Some pathDir \<Rightarrow> (pathDir, w)
               | None \<Rightarrow> firstWritable m pathDirs w) of
           (symlinkDir, w1) \<Rightarrow>
             if symlinkDir = [] then
               (let homeBin = filepath_Join m [homeDir, ''bin'']
                in case os_MkdirAll m homeBin w1 of
                     (Some e, w2) \<Rightarrow> (Inl (Errno e), w2)
                   | (None, w2) \<Rightarrow> (Inr (withExe m (filepath_Join m [homeBin, binName])), w2))
             else (Inr (withExe m (filepath_Join m [symlinkDir, binName])), w1))"


subsection \<open>createSymlink and copyFile\<close>



subsection \<open>switchToVersion\<close>




definition reportActive :: "machine \<Rightarrow> string \<Rightarrow> world \<Rightarrow> world" where
  \<comment> \<open>lines 338-354: run the bare command and say what it reports; never an error\<close>
  "reportActive m version w =
     (case runBareDdn m (fs w) of
        ExecError \<Rightarrow> w
      | ExecOk output \<Rightarrow>
          (let activeVersion = strings_TrimSpace output
           in if \<not> strings_Contains activeVersion version
              then println (''WARNING: Active DDN CLI reports version '' @ activeVersion @
                            '', expected '' @ version) w
              else println (''Verified: Active DDN CLI is now version '' @ version) w))"



subsection \<open>uninstallVersion\<close>

definition uninstallVersion :: "machine \<Rightarrow> error + string \<Rightarrow> string \<Rightarrow> world \<Rightarrow> error option \<times> world" where
  \<comment> \<open>lines 580-598\<close>
  "uninstallVersion m gid version w =
     (case gid of
        Inl err \<Rightarrow> (Some err, w)
      | Inr installPath \<Rightarrow>
          (let versionDir = filepath_Join m [installPath, version]
           in if os_IsNotExist (os_Stat m w versionDir)
              then (Some (Msg (''version '' @ version @ '' is not installed'')), w)
              else
                (case os_RemoveAll m versionDir w of
                   (Some e, w1) \<Rightarrow> (Some (Wrap (''failed to uninstall version '' @ version) (Errno e)), w1)
                 | (None, w1) \<Rightarrow>
                     (None, println (''Successfully uninstalled DDN CLI version '' @ version) w1))))"

subsection \<open>Predicates used to state the claims\<close>


definition markerCreatable :: "machine \<Rightarrow> world \<Rightarrow> string \<Rightarrow> bool" where
  \<comment> \<open>can the marker file be created in the directory \<open>d\<close>?\<close>
  "markerCreatable m w d =
     (case fst (os_Create m (filepath_Join m [d, ''.ddnswitch_test'']) w) of
        Inr file \<Rightarrow> True
      | Inl err \<Rightarrow> False)"

definition preferredOnPath :: "machine \<Rightarrow> string \<Rightarrow> string option" where
  \<comment> \<open>the first tier in the words of the claim: the first preferred directory that
      is an entry of the search list\<close>
  "preferredOnPath m homeDir =
     find (\<lambda>preferred. preferred \<in> set (splitOn (PathListSeparator m) (PATH m)))
       (preferredDirs m homeDir)"

definition firstCreatable :: "machine \<Rightarrow> world \<Rightarrow> string option" where
  \<comment> \<open>the second tier in the words of the claim as amended: the first entry of the
      search list, other than the empty one and \<^verbatim>\<open>.\<close>, in which the marker can be
      created\<close>
  "firstCreatable m w =
     find (\<lambda>d. d \<noteq> [] \<and> d \<noteq> ''.'' \<and> markerCreatable m w d)
       (splitOn (PathListSeparator m) (PATH m))"

definition sameLogs :: "world \<Rightarrow> world \<Rightarrow> bool" where
  \<comment> \<open>nothing was printed, requested or installed between \<open>w\<close> and \<open>w'\<close>\<close>
  "sameLogs w w' \<longleftrightarrow>
     stdout w' = stdout w \<and> httpLog w' = httpLog w \<and> installCalls w' = installCalls w"


section \<open>Concrete inputs used to evaluate the model\<close>

definition catalogue_example :: "Release list" where
  "catalogue_example =
     [mkRelease ''v1.0.0'' False True, mkRelease ''v2.0.0'' True False,
      mkRelease ''v1.5.0'' False False, mkRelease ''v3.0.0'' False False]"

definition catalogue_unparsable :: "Release list" where
  "catalogue_unparsable = [mkRelease ''alpha'' False False, mkRelease ''beta'' False False]"

definition startup_time :: int where
  \<comment> \<open>a wall-clock reading some 2025 years after the zero time, in nanoseconds\<close>
  "startup_time = 63900000000 * 1000000000"




definition warm_cache :: cache_world where
  \<comment> \<open>a stable-only snapshot stored at \<open>startup_time\<close>\<close>
  "warm_cache =
     \<lparr> versionCache = [mkRelease ''v3.0.0'' False False, mkRelease ''v1.5.0'' False False],
       versionCacheTime = startup_time, cachePrerelease = False,
       includePrerelease = False, httpCalls = 1 \<rparr>"





definition late_down :: fetch_env where
  \<comment> \<open>two hours after \<open>startup_time\<close>, the server answering 503\<close>
  "late_down =
     \<lparr> clockAtCheck = startup_time + 7200 * 1000000000,
       clockAtStore = startup_time + 7200 * 1000000000,
       httpOutcome = Response 503 None \<rparr>"

definition laptop :: machine where
  \<comment> \<open>Linux on amd64; the CDN serves v2.28.0 only; a binary prints its bytes as its version\<close>
  "laptop =
     \<lparr> GOOS = ''linux'', GOARCH = ''amd64'', userHomeDir = Some ''/home/u'',
       PATH = ''/usr/bin:/home/u/bin'', symlinksSupported = True, createMode = 420,
       httpGet = (\<lambda>url.
         if url = ''https://graphql-engine-cdn.hasura.io/ddn/cli/v4/v2.28.0/cli-ddn-linux-amd64''
         then HttpResponse 200 ''v2.28.0'' else HttpResponse 404 []),
       runVersion = (\<lambda>bytes.
         if bytes = [] then ExecError else ExecOk (''DDN CLI Version: '' @ bytes @ [CHR 0x0A])),
       runBareDdn = (\<lambda>fsys. ExecError) \<rparr>"

definition laptop_disk :: filesystem where
  "laptop_disk =
     [(''/'', Dir False), (''/home'', Dir False), (''/home/u'', Dir True),
      (''/home/u/bin'', Dir True), (''/usr'', Dir False), (''/usr/bin'', Dir False),
      (''/home/u/.ddnswitch'', Dir True)]"

definition mismatched_install :: world where
  \<comment> \<open>under the tag v2.28.0 sits a binary that reports v2.9.0\<close>
  "mismatched_install =
     \<lparr> fs = laptop_disk @
              [(''/home/u/.ddnswitch/v2.28.0'', Dir True),
               (''/home/u/.ddnswitch/v2.28.0/ddn'', File ''v2.9.0'' 493)],
       stdout = [], httpLog = [], installCalls = 0 \<rparr>"



definition raspberry :: machine where
  \<comment> \<open>Linux on arm64\<close>
  "raspberry = laptop\<lparr>GOARCH := ''arm64''\<rparr>"

definition fresh_disk :: world where
  "fresh_disk = \<lparr> fs = laptop_disk, stdout = [], httpLog = [], installCalls = 0 \<rparr>"

definition dot_first :: machine where
  \<comment> \<open>the search list starts with the current directory\<close>
  "dot_first = laptop\<lparr>PATH := ''.:/opt/tools''\<rparr>"

definition dot_first_disk :: world where
  "dot_first_disk =
     \<lparr> fs = laptop_disk @ [(''.'', Dir True), (''/opt'', Dir False), (''/opt/tools'', Dir True)],
       stdout = [], httpLog = [], installCalls = 0 \<rparr>"

definition tools_only :: machine where
  "tools_only = laptop\<lparr>PATH := ''/usr/bin:/opt/tools''\<rparr>"

definition broken_cdn :: machine where
  \<comment> \<open>the CDN serves a file that cannot be run\<close>
  "broken_cdn = laptop\<lparr>httpGet := (\<lambda>url. HttpResponse 200 [])\<rparr>"

definition stale_cdn :: machine where
  \<comment> \<open>the CDN serves v2.9.0 under every tag\<close>
  "stale_cdn = laptop\<lparr>httpGet := (\<lambda>url. HttpResponse 200 ''v2.9.0'')\<rparr>"

definition install_on :: "machine \<Rightarrow> string \<Rightarrow> world \<Rightarrow> error option \<times> world" where
  "install_on m = installVersionImpl m (getInstallDir_default m) (downloadBinaryImpl m)"

definition download_on :: "machine \<Rightarrow> string \<Rightarrow> world \<Rightarrow> (error + string) \<times> world" where
  "download_on m = downloadPhase m (getInstallDir_default m) (downloadBinaryImpl m)"

definition system_only :: machine where
  \<comment> \<open>nothing on the search list is writable\<close>
  "system_only = laptop\<lparr>PATH := ''/usr/bin''\<rparr>"





definition catalogue_mixed :: "Release list" where
  \<comment> \<open>two parsable tags and, between them, one that is not\<close>
  "catalogue_mixed =
     [mkRelease ''v9.0.0'' False False, mkRelease ''v5x'' False False,
      mkRelease ''v10.0.0'' False False]"


definition root_is_file :: world where
  \<comment> \<open>where the install directory should be there is a regular file\<close>
  "root_is_file =
     \<lparr> fs = [(''/'', Dir False), (''/home'', Dir False), (''/home/u'', Dir True),
              (''/home/u/.ddnswitch'', File ''notes'' 420)],
       stdout = [], httpLog = [], installCalls = 0 \<rparr>"

definition long_tag :: string where
  \<comment> \<open>a tag of 256 bytes\<close>
  "long_tag = replicate 256 (CHR ''a'')"

definition stale_marker_disk :: world where
  \<comment> \<open>a marker file was left behind in \<^verbatim>\<open>/opt/tools\<close>\<close>
  "stale_marker_disk =
     dot_first_disk\<lparr>fs := fs dot_first_disk @ [(''/opt/tools/.ddnswitch_test'', File ''old'' 420)]\<rparr>"

definition no_home_bin :: world where
  \<comment> \<open>a home directory without \<^verbatim>\<open>bin\<close>\<close>
  "no_home_bin =
     \<lparr> fs = [(''/'', Dir False), (''/home'', Dir False), (''/home/u'', Dir True),
              (''/usr'', Dir False), (''/usr/bin'', Dir False)],
       stdout = [], httpLog = [], installCalls = 0 \<rparr>"

definition locked_home :: world where
  \<comment> \<open>a home directory without \<^verbatim>\<open>bin\<close> in which nothing can be created\<close>
  "locked_home =
     \<lparr> fs = [(''/'', Dir False), (''/home'', Dir False), (''/home/u'', Dir False),
              (''/usr'', Dir False), (''/usr/bin'', Dir False)],
       stdout = [], httpLog = [], installCalls = 0 \<rparr>"

definition readonly_first :: machine where
  \<comment> \<open>the search list starts with a directory that is not writable\<close>
  "readonly_first = laptop\<lparr>PATH := ''/opt/ro:/opt/tools''\<rparr>"

definition readonly_marker_disk :: world where
  \<comment> \<open>\<^verbatim>\<open>/opt/ro\<close> is not writable and holds a marker file that is\<close>
  "readonly_marker_disk =
     \<lparr> fs = laptop_disk @
              [(''/opt'', Dir False), (''/opt/ro'', Dir False),
               (''/opt/ro/.ddnswitch_test'', File ''old'' 420), (''/opt/tools'', Dir True)],
       stdout = [], httpLog = [], installCalls = 0 \<rparr>"




section \<open>Properties of the release catalogue cache\<close>

subsection \<open>The reference instance meets the library contract\<close>

lemma mset_moveLeft: "mset (moveLeft lt x rs) = add_mset x (mset rs)"
  by (induction rs) auto

lemma mset_foldl_moveLeft:
  "mset (foldl (\<lambda>rs x. moveLeft lt x rs) acc xs) = mset acc + mset xs"
  by (induction xs arbitrary: acc) (auto simp: mset_moveLeft)

lemma mset_insertionSort: "mset (insertionSort lt xs) = mset xs"
  by (simp add: insertionSort_def mset_foldl_moveLeft)

lemma set_moveLeft: "set (moveLeft lt x rs) = insert x (set rs)"
  by (induction rs) auto

lemma strict_weak_asym:
  "strict_weak_on A lt \<Longrightarrow> a \<in> A \<Longrightarrow> b \<in> A \<Longrightarrow> lt a b \<Longrightarrow> \<not> lt b a"
  unfolding strict_weak_on_def by blast

lemma strict_weak_trans:
  "strict_weak_on A lt \<Longrightarrow> a \<in> A \<Longrightarrow> b \<in> A \<Longrightarrow> c \<in> A \<Longrightarrow> lt a b \<Longrightarrow> lt b c \<Longrightarrow> lt a c"
  unfolding strict_weak_on_def by blast

lemma strict_weak_negtrans:
  "strict_weak_on A lt \<Longrightarrow> a \<in> A \<Longrightarrow> b \<in> A \<Longrightarrow> c \<in> A \<Longrightarrow> \<not> lt a b \<Longrightarrow> \<not> lt b c \<Longrightarrow> \<not> lt a c"
  unfolding strict_weak_on_def by blast

lemma strict_weak_mono: "strict_weak_on A lt \<Longrightarrow> B \<subseteq> A \<Longrightarrow> strict_weak_on B lt"
  unfolding strict_weak_on_def by blast

lemma sorted_moveLeft:
  assumes swo: "strict_weak_on A lt"
  shows "x \<in> A \<Longrightarrow> set rs \<subseteq> A \<Longrightarrow> sorted_wrt (\<lambda>a b. \<not> lt a b) rs
         \<Longrightarrow> sorted_wrt (\<lambda>a b. \<not> lt a b) (moveLeft lt x rs)"
proof (induction rs)
  case Nil
  then show ?case by simp
next
  case (Cons y rs)
  show ?case
  proof (cases "lt x y")
    case True
    have "\<not> lt y x" using strict_weak_asym[OF swo _ _ True] Cons.prems by simp
    moreover have "\<forall>z\<in>set rs. \<not> lt y z" using Cons.prems by simp
    moreover have "sorted_wrt (\<lambda>a b. \<not> lt a b) (moveLeft lt x rs)"
      using Cons by simp
    ultimately show ?thesis using True by (simp add: set_moveLeft)
  next
    case False
    have "\<forall>z\<in>set rs. \<not> lt x z"
    proof
      fix z assume z: "z \<in> set rs"
      then have "\<not> lt y z" using Cons.prems by simp
      then show "\<not> lt x z"
        using strict_weak_negtrans[OF swo, of x y z] False z Cons.prems by auto
    qed
    then show ?thesis using False Cons.prems by simp
  qed
qed

lemma sorted_foldl_moveLeft:
  assumes swo: "strict_weak_on A lt"
  shows "set xs \<subseteq> A \<Longrightarrow> set acc \<subseteq> A \<Longrightarrow> sorted_wrt (\<lambda>a b. \<not> lt a b) acc
         \<Longrightarrow> sorted_wrt (\<lambda>a b. \<not> lt a b) (foldl (\<lambda>rs x. moveLeft lt x rs) acc xs)"
proof (induction xs arbitrary: acc)
  case Nil
  then show ?case by simp
next
  case (Cons x xs)
  have "sorted_wrt (\<lambda>a b. \<not> lt a b) (moveLeft lt x acc)"
    using sorted_moveLeft[OF swo] Cons.prems by simp
  moreover have "set (moveLeft lt x acc) \<subseteq> A" using Cons.prems by (simp add: set_moveLeft)
  ultimately show ?case using Cons.IH[of "moveLeft lt x acc"] Cons.prems by simp
qed

lemma sorted_insertionSort:
  "strict_weak_on (set xs) lt \<Longrightarrow> sorted_wrt (\<lambda>a b. \<not> lt b a) (insertionSort lt xs)"
  using sorted_foldl_moveLeft[of "set xs" lt xs "[]"]
  by (simp add: insertionSort_def sorted_wrt_rev)

lemma insertionSort_contract: "sort_Slice_contract insertionSort"
  by (simp add: sort_Slice_contract_def mset_insertionSort sorted_insertionSort)

lemma plain_GreaterThan_strict_weak: "strict_weak_on UNIV plain_GreaterThan"
  unfolding strict_weak_on_def plain_GreaterThan_def by (auto split: prod.splits)


subsection \<open>The comparison closure and the snapshot\<close>

lemma string_gt_strict_weak: "strict_weak_on A (\<lambda>a b. f b < (f a :: string))"
  unfolding strict_weak_on_def by auto

lemma releaseLess_all_parse:
  assumes gt: "strict_weak_on UNIV (semver_GreaterThan lib)"
    and parse: "\<forall>r\<in>A. tagVersion lib r \<noteq> None"
  shows "strict_weak_on A (releaseLess lib)"
proof -
  have eq: "releaseLess lib a b = semver_GreaterThan lib (the (tagVersion lib a)) (the (tagVersion lib b))"
    if aA: "a \<in> A" and bA: "b \<in> A" for a b
  proof -
    obtain va vb where "tagVersion lib a = Some va" "tagVersion lib b = Some vb"
      using aA bA parse by (meson option.exhaust)
    then show ?thesis by (simp add: releaseLess_def tagVersion_def)
  qed
  have irr: "\<not> semver_GreaterThan lib x x" for x
    using gt unfolding strict_weak_on_def by blast
  have tr: "semver_GreaterThan lib x y \<Longrightarrow> semver_GreaterThan lib y z \<Longrightarrow> semver_GreaterThan lib x z" for x y z
    using gt unfolding strict_weak_on_def by blast
  have ntr: "\<not> semver_GreaterThan lib x y \<Longrightarrow> \<not> semver_GreaterThan lib y z \<Longrightarrow> \<not> semver_GreaterThan lib x z" for x y z
    using gt unfolding strict_weak_on_def by blast
  show ?thesis
    unfolding strict_weak_on_def
  proof (intro conjI ballI impI)
    fix a assume "a \<in> A"
    then show "\<not> releaseLess lib a a"
      using irr eq by simp
  next
    fix a b c assume "a \<in> A" "b \<in> A" "c \<in> A" "releaseLess lib a b \<and> releaseLess lib b c"
    then show "releaseLess lib a c"
      using eq tr by blast
  next
    fix a b c assume "a \<in> A" "b \<in> A" "c \<in> A" "\<not> releaseLess lib a b \<and> \<not> releaseLess lib b c"
    then show "\<not> releaseLess lib a c"
      using eq ntr by blast
  qed
qed

lemma releaseLess_none_parse:
  assumes "tagVersion lib a = None \<or> tagVersion lib b = None"
  shows "releaseLess lib a b = (TagName b < TagName a)"
  using assms by (auto simp: releaseLess_def tagVersion_def split: option.splits)

lemma releaseLess_unparsable:
  assumes parse: "\<forall>r\<in>A. tagVersion lib r = None"
  shows "strict_weak_on A (releaseLess lib)"
  unfolding strict_weak_on_def using parse by (auto simp: releaseLess_none_parse)

lemma set_validReleases:
  "sort_Slice_contract (sort_Slice lib) \<Longrightarrow>
   mset (validReleases lib incl releases) = mset (filter (keepRelease incl) releases)"
  by (simp add: validReleases_def sort_Slice_contract_def)

lemma sorted_validReleases:
  "sort_Slice_contract (sort_Slice lib) \<Longrightarrow>
   strict_weak_on (set (filter (keepRelease incl) releases)) (releaseLess lib) \<Longrightarrow>
   sorted_wrt (\<lambda>a b. \<not> releaseLess lib b a) (validReleases lib incl releases)"
  by (simp add: validReleases_def sort_Slice_contract_def)

lemma two_sorted:
  assumes m: "mset ys = mset [a, b]" and s: "sorted_wrt (\<lambda>x y. \<not> lt y x) ys" and ab: "lt b a"
  shows "ys = [b, a]"
proof -
  have "length ys = 2" using m by (metis length_Cons list.size(3) mset_eq_length numeral_2_eq_2)
  then obtain x y where ys: "ys = [x, y]"
    by (metis (no_types, opaque_lifting) length_0_conv length_Suc_conv numeral_2_eq_2)
  with m have "(x = a \<and> y = b) \<or> (x = b \<and> y = a)"
    by (auto simp: add_eq_conv_ex)
  with s ab ys show ?thesis by auto
qed


lemma releaseLess_newerFirst: "releaseLess lib a b = newerFirst lib a b"
  by (auto simp: releaseLess_def newerFirst_def tagVersion_def split: option.splits)

lemma keepRelease_words: "keepRelease incl = (\<lambda>r. \<not> Draft r \<and> (incl \<or> \<not> PreRelease r))"
  by (rule ext) (simp add: keepRelease_def)



subsection \<open>Claims about the snapshot and the cache\<close>

text \<open>
  C4 (as amended). The snapshot made from a fetched release list holds no draft, holds
  a prerelease only when prereleases are included, and holds every other fetched
  release exactly once. It is what \<^verbatim>\<open>sort.Slice\<close> makes of the releases kept under the
  comparison \<open>newerFirst\<close>: greater semantic version first, and greater tag string first
  as soon as a tag of the compared pair does not parse. Whenever that comparison is an
  ordering of the kept releases, no release of the snapshot stands behind one it should
  precede; it is an ordering when every tag parses (the snapshot then descends by
  semantic version) and when none does (it then descends by tag string). On the
  catalogue v1.0.0 (draft), v2.0.0 (prerelease), v1.5.0, v3.0.0 without prereleases the
  snapshot is v3.0.0, v1.5.0.
\<close>

theorem validReleases_filtered_and_sorted:
  assumes srt: "sort_Slice_contract (sort_Slice lib)"
    and gt: "strict_weak_on UNIV (semver_GreaterThan lib)"
  shows
    "(\<forall>r\<in>set (validReleases lib incl releases). \<not> Draft r \<and> (incl \<or> \<not> PreRelease r)) \<and>
     mset (validReleases lib incl releases) =
       mset (filter (\<lambda>r. \<not> Draft r \<and> (incl \<or> \<not> PreRelease r)) releases) \<and>
     validReleases lib incl releases =
       sort_Slice lib (newerFirst lib)
         (filter (\<lambda>r. \<not> Draft r \<and> (incl \<or> \<not> PreRelease r)) releases) \<and>
     (strict_weak_on (set (filter (\<lambda>r. \<not> Draft r \<and> (incl \<or> \<not> PreRelease r)) releases))
        (newerFirst lib) \<longrightarrow>
        sorted_wrt (\<lambda>a b. \<not> newerFirst lib b a) (validReleases lib incl releases)) \<and>
     ((\<forall>r\<in>set releases. tagVersion lib r \<noteq> None) \<longrightarrow>
        sorted_wrt (\<lambda>a b. \<not> semver_GreaterThan lib (the (tagVersion lib b)) (the (tagVersion lib a)))
          (validReleases lib incl releases)) \<and>
     ((\<forall>r\<in>set releases. tagVersion lib r = None) \<longrightarrow>
        sorted_wrt (\<lambda>a b. TagName b \<le> TagName a) (validReleases lib incl releases)) \<and>
     (semver_NewVersion lib ''3.0.0'' = Some v3 \<and> semver_NewVersion lib ''1.5.0'' = Some v15 \<and>
      semver_GreaterThan lib v3 v15 \<longrightarrow>
        validReleases lib False catalogue_example =
          [mkRelease ''v3.0.0'' False False, mkRelease ''v1.5.0'' False False])"
proof -
  let ?snap = "validReleases lib incl releases"
  let ?kept = "filter (keepRelease incl) releases"
  have lt: "releaseLess lib = newerFirst lib"
    by (rule ext, rule ext) (rule releaseLess_newerFirst)
  have ms: "mset ?snap = mset ?kept" by (rule set_validReleases[OF srt])
  then have st: "set ?snap = set ?kept" by (rule mset_eq_setD)
  have c1: "\<forall>r\<in>set ?snap. \<not> Draft r \<and> (incl \<or> \<not> PreRelease r)"
    using st by (auto simp: keepRelease_def)
  have c2: "mset ?snap = mset (filter (\<lambda>r. \<not> Draft r \<and> (incl \<or> \<not> PreRelease r)) releases)"
    using ms by (simp add: keepRelease_words)
  have c3: "?snap = sort_Slice lib (newerFirst lib)
         (filter (\<lambda>r. \<not> Draft r \<and> (incl \<or> \<not> PreRelease r)) releases)"
    by (simp add: validReleases_def lt keepRelease_words)
  have c3': "strict_weak_on (set (filter (\<lambda>r. \<not> Draft r \<and> (incl \<or> \<not> PreRelease r)) releases))
        (newerFirst lib) \<longrightarrow>
        sorted_wrt (\<lambda>a b. \<not> newerFirst lib b a) ?snap"
    using sorted_validReleases[OF srt, of incl releases] by (simp add: lt keepRelease_words)
  have c4: "sorted_wrt (\<lambda>a b. \<not> semver_GreaterThan lib (the (tagVersion lib b)) (the (tagVersion lib a))) ?snap"
    if parse: "\<forall>r\<in>set releases. tagVersion lib r \<noteq> None"
  proof -
    have p: "\<forall>r\<in>set ?kept. tagVersion lib r \<noteq> None" using parse by simp
    have "sorted_wrt (\<lambda>a b. \<not> releaseLess lib b a) ?snap"
      using sorted_validReleases[OF srt releaseLess_all_parse[OF gt p]] .
    moreover have "releaseLess lib b a =
        semver_GreaterThan lib (the (tagVersion lib b)) (the (tagVersion lib a))"
      if aS: "a \<in> set ?snap" and bS: "b \<in> set ?snap" for a b
    proof -
      have "tagVersion lib a \<noteq> None" "tagVersion lib b \<noteq> None"
        using aS bS p st by auto
      then obtain va vb where "tagVersion lib a = Some va" "tagVersion lib b = Some vb"
        by auto
      then show ?thesis by (simp add: releaseLess_def tagVersion_def)
    qed
    ultimately show ?thesis by (auto elim!: sorted_wrt_mono_rel[rotated])
  qed
  have c5: "sorted_wrt (\<lambda>a b. TagName b \<le> TagName a) ?snap"
    if parse: "\<forall>r\<in>set releases. tagVersion lib r = None"
  proof -
    have p: "\<forall>r\<in>set ?kept. tagVersion lib r = None" using parse by simp
    have "sorted_wrt (\<lambda>a b. \<not> releaseLess lib b a) ?snap"
      using sorted_validReleases[OF srt releaseLess_unparsable[OF p]] .
    moreover have "(\<not> releaseLess lib b a) = (TagName b \<le> TagName a)"
      if "a \<in> set ?snap" for a b
      using that p st by (auto simp: releaseLess_none_parse)
    ultimately show ?thesis by (auto elim!: sorted_wrt_mono_rel[rotated])
  qed
  have c6: "validReleases lib False catalogue_example =
          [mkRelease ''v3.0.0'' False False, mkRelease ''v1.5.0'' False False]"
    if ex: "semver_NewVersion lib ''3.0.0'' = Some v3 \<and> semver_NewVersion lib ''1.5.0'' = Some v15 \<and>
      semver_GreaterThan lib v3 v15"
  proof -
    let ?a = "mkRelease ''v1.5.0'' False False" and ?b = "mkRelease ''v3.0.0'' False False"
    have kept: "filter (keepRelease False) catalogue_example = [?a, ?b]"
      by (simp add: catalogue_example_def keepRelease_def mkRelease_def)
    have ta: "tagVersion lib ?a = Some v15" and tb: "tagVersion lib ?b = Some v3"
      using ex by (simp_all add: tagVersion_def mkRelease_def strings_TrimPrefix_def)
    have p: "\<forall>r\<in>set [?a, ?b]. tagVersion lib r \<noteq> None" using ta tb by simp
    have m: "mset (validReleases lib False catalogue_example) = mset [?a, ?b]"
      using set_validReleases[OF srt, of False catalogue_example] kept by simp
    have s: "sorted_wrt (\<lambda>a b. \<not> releaseLess lib b a) (validReleases lib False catalogue_example)"
      using sorted_validReleases[OF srt, of False catalogue_example]
        releaseLess_all_parse[OF gt p] kept by simp
    have "releaseLess lib ?b ?a" using ta tb ex by (simp add: releaseLess_def tagVersion_def)
    then show ?thesis by (rule two_sorted[where lt = "releaseLess lib", OF m s])
  qed
  from c4 have c4': "(\<forall>r\<in>set releases. tagVersion lib r \<noteq> None) \<longrightarrow>
        sorted_wrt (\<lambda>a b. \<not> semver_GreaterThan lib (the (tagVersion lib b)) (the (tagVersion lib a))) ?snap"
    by (rule impI)
  from c5 have c5': "(\<forall>r\<in>set releases. tagVersion lib r = None) \<longrightarrow>
        sorted_wrt (\<lambda>a b. TagName b \<le> TagName a) ?snap"
    by (rule impI)
  from c6 have c6': "semver_NewVersion lib ''3.0.0'' = Some v3 \<and> semver_NewVersion lib ''1.5.0'' = Some v15 \<and>
      semver_GreaterThan lib v3 v15 \<longrightarrow>
        validReleases lib False catalogue_example =
          [mkRelease ''v3.0.0'' False False, mkRelease ''v1.5.0'' False False]"
    by (rule impI)
  show ?thesis
    by (rule conjI[OF c1 conjI[OF c2 conjI[OF c3 conjI[OF c3' conjI[OF c4' conjI[OF c5' c6']]]]]])
qed

lemma plain_parse_examples:
  "semver_NewVersion plain_libs ''3.0.0'' = Some (3, 0, 0)"
  "semver_NewVersion plain_libs ''1.5.0'' = Some (1, 5, 0)"
  "semver_GreaterThan plain_libs (3, 0, 0) (1, 5, 0)"
  "tagVersion plain_libs (mkRelease ''alpha'' False False) = None"
  "tagVersion plain_libs (mkRelease ''beta'' False False) = None"
  by code_simp+

theorem validReleases_filtered_and_sorted_witness:
  "sort_Slice_contract (sort_Slice plain_libs) \<and>
   strict_weak_on UNIV (semver_GreaterThan plain_libs) \<and>
   semver_NewVersion plain_libs ''3.0.0'' = Some (3, 0, 0) \<and>
   semver_NewVersion plain_libs ''1.5.0'' = Some (1, 5, 0) \<and>
   semver_GreaterThan plain_libs (3, 0, 0) (1, 5, 0) \<and>
   validReleases plain_libs False catalogue_example =
     [mkRelease ''v3.0.0'' False False, mkRelease ''v1.5.0'' False False] \<and>
   list_all (\<lambda>r. tagVersion plain_libs r = None) catalogue_unparsable \<and>
   sorted_wrt (\<lambda>a b. TagName b \<le> TagName a) (validReleases plain_libs False catalogue_unparsable) \<and>
   validReleases plain_libs False catalogue_mixed =
     sort_Slice plain_libs (newerFirst plain_libs) catalogue_mixed"
proof -
  have srt: "sort_Slice_contract (sort_Slice plain_libs)"
    by (simp add: plain_libs_def insertionSort_contract)
  have gt: "strict_weak_on UNIV (semver_GreaterThan plain_libs)"
    by (simp add: plain_libs_def plain_GreaterThan_strict_weak)
  have un: "\<forall>r\<in>set catalogue_unparsable. tagVersion plain_libs r = None"
    by (simp add: catalogue_unparsable_def plain_parse_examples)
  note a = validReleases_filtered_and_sorted[OF srt gt, of False catalogue_example "(3, 0, 0)" "(1, 5, 0)"]
  note b = validReleases_filtered_and_sorted[OF srt gt, of False catalogue_unparsable "(3, 0, 0)" "(1, 5, 0)"]
  note c = validReleases_filtered_and_sorted[OF srt gt, of False catalogue_mixed "(3, 0, 0)" "(1, 5, 0)"]
  from a have "validReleases plain_libs False catalogue_example =
     [mkRelease ''v3.0.0'' False False, mkRelease ''v1.5.0'' False False]"
    using plain_parse_examples by blast
  moreover from b un
  have "sorted_wrt (\<lambda>a b. TagName b \<le> TagName a) (validReleases plain_libs False catalogue_unparsable)"
    by blast
  moreover from c have "validReleases plain_libs False catalogue_mixed =
     sort_Slice plain_libs (newerFirst plain_libs)
       (filter (\<lambda>r. \<not> Draft r \<and> (False \<or> \<not> PreRelease r)) catalogue_mixed)"
    by blast
  then have "validReleases plain_libs False catalogue_mixed =
     sort_Slice plain_libs (newerFirst plain_libs) catalogue_mixed"
    by (simp add: catalogue_mixed_def mkRelease_def)
  ultimately show ?thesis using srt gt un plain_parse_examples by (simp add: list_all_iff)
qed

text \<open>
  The claim as it stands, sorted for every release list, fails where parsable and
  unparsable tags meet. The catalogue v9.0.0, v5x, v10.0.0 comes back in the order in
  which it was fetched: v5x goes behind v9.0.0 and v10.0.0 behind v5x by their tag
  strings, and so v10.0.0 is last although its version is the greatest.
\<close>

theorem snapshot_order_counterexample:
  "validReleases plain_libs False
     [mkRelease ''v9.0.0'' False False, mkRelease ''v5x'' False False,
      mkRelease ''v10.0.0'' False False] =
     [mkRelease ''v9.0.0'' False False, mkRelease ''v5x'' False False,
      mkRelease ''v10.0.0'' False False] \<and>
   tagVersion plain_libs (mkRelease ''v9.0.0'' False False) = Some (9, 0, 0) \<and>
   tagVersion plain_libs (mkRelease ''v10.0.0'' False False) = Some (10, 0, 0) \<and>
   tagVersion plain_libs (mkRelease ''v5x'' False False) = None \<and>
   semver_GreaterThan plain_libs (10, 0, 0) (9, 0, 0) \<and>
   releaseLess plain_libs (mkRelease ''v10.0.0'' False False) (mkRelease ''v9.0.0'' False False)"
  by code_simp

text \<open>
  On these three releases the comparison is not an ordering at all: each is in front of
  the next and the last is in front of the first, so no arrangement of the three is
  sorted and \<^verbatim>\<open>sort.Slice\<close> promises nothing about their order.
\<close>

lemma releaseLess_cycle:
  "releaseLess plain_libs (mkRelease ''v10.0.0'' False False) (mkRelease ''v9.0.0'' False False) \<and>
   releaseLess plain_libs (mkRelease ''v9.0.0'' False False) (mkRelease ''v5x'' False False) \<and>
   releaseLess plain_libs (mkRelease ''v5x'' False False) (mkRelease ''v10.0.0'' False False) \<and>
   \<not> strict_weak_on (set catalogue_mixed) (releaseLess plain_libs)"
proof -
  define a where "a = mkRelease ''v10.0.0'' False False"
  define b where "b = mkRelease ''v9.0.0'' False False"
  define c where "c = mkRelease ''v5x'' False False"
  define lt where "lt = releaseLess plain_libs"
  have ab: "lt a b" unfolding lt_def a_def b_def by code_simp
  have bc: "lt b c" unfolding lt_def b_def c_def by code_simp
  have ca: "lt c a" unfolding lt_def a_def c_def by code_simp
  have m: "a \<in> set catalogue_mixed" "b \<in> set catalogue_mixed" "c \<in> set catalogue_mixed"
    by (simp_all add: catalogue_mixed_def a_def b_def c_def)
  have n: "\<not> strict_weak_on (set catalogue_mixed) lt"
  proof
    assume s: "strict_weak_on (set catalogue_mixed) lt"
    have "lt a c" by (rule strict_weak_trans[OF s m(1) m(2) m(3) ab bc])
    moreover have "\<not> lt a c" by (rule strict_weak_asym[OF s m(3) m(1) ca])
    ultimately show False by simp
  qed
  show ?thesis using ab bc ca n unfolding lt_def a_def b_def c_def by (intro conjI)
qed




text \<open>
  C5. A call whose fetch fails (the request cannot be built, the exchange fails, the
  status is not 200, or the body does not decode) returns an error, and a call that
  returns an error leaves the snapshot, its timestamp and its stored flag as they were.
\<close>

theorem failed_fetch_keeps_cache:
  "(\<not> cacheHit env w \<and>
      (httpOutcome env = NewRequestFails \<or> httpOutcome env = DoFails \<or>
       (\<exists>status body. httpOutcome env = Response status body \<and> (status \<noteq> 200 \<or> body = None))) \<longrightarrow>
        isl (fst (fetchAvailableVersions lib env w))) \<and>
   (isl (fst (fetchAvailableVersions lib env w)) \<longrightarrow>
        versionCache (snd (fetchAvailableVersions lib env w)) = versionCache w \<and>
        versionCacheTime (snd (fetchAvailableVersions lib env w)) = versionCacheTime w \<and>
        cachePrerelease (snd (fetchAvailableVersions lib env w)) = cachePrerelease w)"
  by (auto simp: fetchAvailableVersions_def Let_def split: http_outcome.splits option.splits)

theorem failed_fetch_keeps_cache_witness:
  "\<not> cacheHit late_down warm_cache \<and> httpOutcome late_down = Response 503 None \<and>
   isl (fst (fetchAvailableVersions plain_libs late_down warm_cache)) \<and>
   versionCache (snd (fetchAvailableVersions plain_libs late_down warm_cache)) = versionCache warm_cache \<and>
   versionCacheTime (snd (fetchAvailableVersions plain_libs late_down warm_cache)) = versionCacheTime warm_cache \<and>
   cachePrerelease (snd (fetchAvailableVersions plain_libs late_down warm_cache)) = cachePrerelease warm_cache"
proof -
  have h1: "\<not> cacheHit late_down warm_cache"
    by (simp add: cacheHit_def late_down_def warm_cache_def time_Since_def time_Sub_def cacheTTL_def
        maxDuration_def minDuration_def startup_time_def)
  have h2: "httpOutcome late_down = Response 503 None" by (simp add: late_down_def)
  show ?thesis using failed_fetch_keeps_cache[of late_down warm_cache plain_libs] h1 h2 by simp
qed




section \<open>Properties of installing, activating and removing\<close>

subsection \<open>Lookups after an update\<close>

lemma lookup_erase: "lookup (erase k fsys) q = (if q = k then None else lookup fsys q)"
  by (induction fsys) (auto simp: lookup_def erase_def)

lemma lookup_store: "lookup (store k n fsys) q = (if q = k then Some n else lookup fsys q)"
  using lookup_erase[of k fsys q] by (simp add: store_def lookup_def)

lemma lookup_eraseTree:
  "lookup (eraseTree m k fsys) q = (if under m k q then None else lookup fsys q)"
  by (induction fsys) (auto simp: lookup_def eraseTree_def)

subsection \<open>What the file system calls leave alone\<close>

lemma os_Mkdir_logs: "sameLogs w (snd (os_Mkdir m k w))"
  by (auto simp: os_Mkdir_def sameLogs_def split: option.splits)

lemma sameLogs_refl [simp]: "sameLogs w w"
  by (simp add: sameLogs_def)

lemma sameLogs_trans: "sameLogs w w1 \<Longrightarrow> sameLogs w1 w2 \<Longrightarrow> sameLogs w w2"
  by (simp add: sameLogs_def)

lemma mkdirAllKey_logs: "sameLogs w (snd (mkdirAllKey m n k w))"
proof (induction n arbitrary: k w)
  case 0
  show ?case using os_Mkdir_logs[of w m k]
    by (subst mkdirAllKey.simps) (auto split: sum.splits node.splits)
next
  case (Suc n)
  have step: "sameLogs w (snd (case mkdirAllKey m n (filepath_Dir m k) w of
                    (Some e', w1) \<Rightarrow> (Some e', w1)
                  | (None, w1) \<Rightarrow> os_Mkdir m k w1))"
  proof (cases "mkdirAllKey m n (filepath_Dir m k) w")
    case (Pair r w1)
    then have "sameLogs w w1" using Suc[of w "filepath_Dir m k"] by simp
    then show ?thesis using Pair os_Mkdir_logs[of w1 m k]
      by (cases r) (auto intro: sameLogs_trans)
  qed
  show ?case using os_Mkdir_logs[of w m k] step
    by (subst mkdirAllKey.simps) (auto split: sum.splits node.splits)
qed

lemma os_MkdirAll_logs: "sameLogs w (snd (os_MkdirAll m p w))"
  by (simp add: os_MkdirAll_def mkdirAllKey_logs)

lemma ensureInstallDir_logs: "sameLogs w (snd (ensureInstallDir m gid w))"
proof (cases gid)
  case (Inl err)
  then show ?thesis by (simp add: ensureInstallDir_def)
next
  case (Inr installPath)
  then show ?thesis using os_MkdirAll_logs[of w m installPath]
    by (cases "os_MkdirAll m installPath w") (auto simp: ensureInstallDir_def split: option.splits)
qed

lemma os_Create_fails_unchanged: "os_Create m p w = (Inl e, w') \<Longrightarrow> w' = w"
  by (auto simp: os_Create_def split: sum.splits option.splits node.splits if_splits)

lemma os_Stat_fs: "fs w' = fs w \<Longrightarrow> os_Stat m w' p = os_Stat m w p"
  by (auto simp: os_Stat_def split: sum.splits option.splits)

lemma os_Stat_statKey: "os_Stat m w p = statKey m w (pathKey m p)"
  by (simp add: os_Stat_def statKey_def followKey_def)

lemma exec_version_fs: "fs w' = fs w \<Longrightarrow> exec_version m w' p = exec_version m w p"
  using os_Stat_fs[of w' w m p] by (simp add: exec_version_def)

lemma fs_println [simp]: "fs (println s w) = fs w"
  by (simp add: println_def)

subsection \<open>Trimming keeps a contiguous part\<close>

lemma sublist_TrimSpace: "sublist (strings_TrimSpace s) s"
proof -
  have "prefix (rev (dropWhile isSpace (rev (dropWhile isSpace s)))) (dropWhile isSpace s)"
    by (metis suffix_dropWhile suffix_to_prefix rev_rev_ident)
  moreover have "suffix (dropWhile isSpace s) s" by (rule suffix_dropWhile)
  ultimately show ?thesis
    unfolding strings_TrimSpace_def
    by (meson prefix_imp_sublist suffix_imp_sublist sublist_order.order_trans)
qed

lemma Contains_TrimSpace:
  "strings_Contains (strings_TrimSpace s) t \<Longrightarrow> strings_Contains s t"
  unfolding strings_Contains_def by (rule sublist_order.order_trans[OF _ sublist_TrimSpace])


subsection \<open>installVersionImpl\<close>

text \<open>
  C7. On Linux with an arm or arm64 processor \<open>installVersionImpl\<close> returns an error
  for every tag, whatever \<^verbatim>\<open>downloadBinary\<close> is (it is never called, so no URL is
  requested): the log of requests is as before, and whenever the install directory
  could be ensured the error is the one that names the unsupported platform.
\<close>

theorem arm_linux_rejected_before_download:
  assumes os: "GOOS m = ''linux''" and arch: "GOARCH m = ''arm64'' \<or> GOARCH m = ''arm''"
  shows "fst (installVersionImpl m gid dl version w) \<noteq> None \<and>
         httpLog (snd (installVersionImpl m gid dl version w)) = httpLog w \<and>
         installVersionImpl m gid dl version w = installVersionImpl m gid dl' version w \<and>
         (fst (ensureInstallDir m gid w) = None \<longrightarrow>
            fst (installVersionImpl m gid dl version w) =
              Some (Msg ''DDN CLI does not support ARM-based Linux systems''))"
proof -
  obtain r w0 where e: "ensureInstallDir m gid w = (r, w0)" by (cases "ensureInstallDir m gid w")
  have logs: "httpLog w0 = httpLog w"
    using ensureInstallDir_logs[of w m gid] e by (simp add: sameLogs_def)
  have dp: "downloadPhase m gid d version w =
      (case r of Some err \<Rightarrow> (Inl err, w0)
       | None \<Rightarrow> (Inl (Msg ''DDN CLI does not support ARM-based Linux systems''), w0))" for d
    using os arch e by (auto simp: downloadPhase_def split: option.splits)
  show ?thesis using logs e
    by (cases r) (simp_all add: installVersionImpl_def dp)
qed

theorem arm_linux_rejected_before_download_witness:
  "GOOS raspberry = ''linux'' \<and> GOARCH raspberry = ''arm64'' \<and>
   fst (ensureInstallDir raspberry (getInstallDir_default raspberry) fresh_disk) = None \<and>
   fst (installVersionImpl raspberry (getInstallDir_default raspberry)
          (downloadBinaryImpl raspberry) ''v2.28.0'' fresh_disk) =
     Some (Msg ''DDN CLI does not support ARM-based Linux systems'') \<and>
   httpLog (snd (installVersionImpl raspberry (getInstallDir_default raspberry)
          (downloadBinaryImpl raspberry) ''v2.28.0'' fresh_disk)) = []"
proof -
  have os: "GOOS raspberry = ''linux''" by (simp add: raspberry_def laptop_def)
  have arch: "GOARCH raspberry = ''arm64'' \<or> GOARCH raspberry = ''arm''"
    by (simp add: raspberry_def)
  have e: "fst (ensureInstallDir raspberry (getInstallDir_default raspberry) fresh_disk) = None"
    by code_simp
  have l: "httpLog fresh_disk = []" by (simp add: fresh_disk_def)
  show ?thesis
    using arm_linux_rejected_before_download[OF os arch, of "getInstallDir_default raspberry"
        "downloadBinaryImpl raspberry" "''v2.28.0''" fresh_disk "downloadBinaryImpl raspberry"] e l os
    by (simp add: raspberry_def)
qed

text \<open>
  C6. \<open>installVersionImpl\<close> returns success only when the binary it downloaded, run
  with \<^verbatim>\<open>version\<close> in the world the call leaves, exits without error and prints
  text that contains the tag. When the download phase has succeeded and that run
  fails, or prints text without the tag, the call returns the verification error.
\<close>

theorem install_succeeds_only_when_verified:
  "(installVersionImpl m gid dl version w = (None, w') \<longrightarrow>
      (\<exists>installPath output.
         gid = Inr installPath \<and>
         exec_version m w' (binPathOf m installPath version) = ExecOk output \<and>
         strings_Contains output version)) \<and>
   (downloadPhase m gid dl version w = (Inr binPath, w1) \<and> exec_version m w1 binPath = ExecError \<longrightarrow>
      installVersionImpl m gid dl version w =
        (Some (Wrap ''failed to verify downloaded binary'' ExecFailure), w1)) \<and>
   (downloadPhase m gid dl version w = (Inr binPath, w1) \<and>
    exec_version m w1 binPath = ExecOk output \<and> \<not> strings_Contains output version \<longrightarrow>
      installVersionImpl m gid dl version w =
        (Some (Msg (''downloaded binary reports version '' @ strings_TrimSpace output @
                    '', expected '' @ version)), w1))"
proof (intro conjI impI)
  assume ok: "installVersionImpl m gid dl version w = (None, w')"
  obtain r w1 where dp: "downloadPhase m gid dl version w = (r, w1)"
    by (cases "downloadPhase m gid dl version w")
  from ok dp obtain bp where r: "r = Inr bp" and v: "verifyDownloaded m version bp w1 = (None, w')"
    by (cases r) (auto simp: installVersionImpl_def)
  from dp r obtain installPath where gid: "gid = Inr installPath"
    and bp: "bp = binPathOf m installPath version"
    by (auto simp: downloadPhase_def binPathOf_def versionDirOf_def Let_def
        split: prod.splits option.splits if_splits sum.splits)
  from v obtain out where ex: "exec_version m w1 bp = ExecOk out"
    and c: "strings_Contains (strings_TrimSpace out) version"
    and w': "w' = println (''Successfully installed DDN CLI '' @ version) w1"
    by (auto simp: verifyDownloaded_def Let_def split: exec_result.splits if_splits)
  have "exec_version m w' bp = ExecOk out"
    using exec_version_fs[of w' w1 m bp] ex w' by simp
  then show "\<exists>installPath output.
         gid = Inr installPath \<and>
         exec_version m w' (binPathOf m installPath version) = ExecOk output \<and>
         strings_Contains output version"
    using gid bp Contains_TrimSpace[OF c] by blast
next
  assume "downloadPhase m gid dl version w = (Inr binPath, w1) \<and> exec_version m w1 binPath = ExecError"
  then show "installVersionImpl m gid dl version w =
        (Some (Wrap ''failed to verify downloaded binary'' ExecFailure), w1)"
    by (simp add: installVersionImpl_def verifyDownloaded_def)
next
  assume a: "downloadPhase m gid dl version w = (Inr binPath, w1) \<and>
    exec_version m w1 binPath = ExecOk output \<and> \<not> strings_Contains output version"
  then have "\<not> strings_Contains (strings_TrimSpace output) version"
    using Contains_TrimSpace by blast
  with a show "installVersionImpl m gid dl version w =
        (Some (Msg (''downloaded binary reports version '' @ strings_TrimSpace output @
                    '', expected '' @ version)), w1)"
    by (simp add: installVersionImpl_def verifyDownloaded_def Let_def)
qed


theorem install_succeeds_only_when_verified_witness:
  "fst (install_on laptop ''v2.28.0'' fresh_disk) = None \<and>
   exec_version laptop (snd (install_on laptop ''v2.28.0'' fresh_disk))
     ''/home/u/.ddnswitch/v2.28.0/ddn'' = ExecOk (''DDN CLI Version: v2.28.0'' @ [CHR 0x0A]) \<and>
   strings_Contains (''DDN CLI Version: v2.28.0'' @ [CHR 0x0A]) ''v2.28.0'' \<and>
   fst (download_on broken_cdn ''v2.28.0'' fresh_disk) = Inr ''/home/u/.ddnswitch/v2.28.0/ddn'' \<and>
   exec_version broken_cdn (snd (download_on broken_cdn ''v2.28.0'' fresh_disk))
     ''/home/u/.ddnswitch/v2.28.0/ddn'' = ExecError \<and>
   fst (install_on broken_cdn ''v2.28.0'' fresh_disk) =
     Some (Wrap ''failed to verify downloaded binary'' ExecFailure) \<and>
   fst (download_on stale_cdn ''v2.28.0'' fresh_disk) = Inr ''/home/u/.ddnswitch/v2.28.0/ddn'' \<and>
   exec_version stale_cdn (snd (download_on stale_cdn ''v2.28.0'' fresh_disk))
     ''/home/u/.ddnswitch/v2.28.0/ddn'' = ExecOk (''DDN CLI Version: v2.9.0'' @ [CHR 0x0A]) \<and>
   \<not> strings_Contains (''DDN CLI Version: v2.9.0'' @ [CHR 0x0A]) ''v2.28.0'' \<and>
   fst (install_on stale_cdn ''v2.28.0'' fresh_disk) =
     Some (Msg ''downloaded binary reports version DDN CLI Version: v2.9.0, expected v2.28.0'')"
proof -
  let ?bp = "''/home/u/.ddnswitch/v2.28.0/ddn''"
  have a1: "fst (install_on laptop ''v2.28.0'' fresh_disk) = None" by code_simp
  have a2: "exec_version laptop (snd (install_on laptop ''v2.28.0'' fresh_disk)) ?bp
      = ExecOk (''DDN CLI Version: v2.28.0'' @ [CHR 0x0A])" by code_simp
  have a3: "strings_Contains (''DDN CLI Version: v2.28.0'' @ [CHR 0x0A]) ''v2.28.0''" by code_simp
  have b1: "fst (download_on broken_cdn ''v2.28.0'' fresh_disk) = Inr ?bp" by code_simp
  have b2: "exec_version broken_cdn (snd (download_on broken_cdn ''v2.28.0'' fresh_disk)) ?bp = ExecError"
    by code_simp
  have c1: "fst (download_on stale_cdn ''v2.28.0'' fresh_disk) = Inr ?bp" by code_simp
  have c2: "exec_version stale_cdn (snd (download_on stale_cdn ''v2.28.0'' fresh_disk)) ?bp
      = ExecOk (''DDN CLI Version: v2.9.0'' @ [CHR 0x0A])" by code_simp
  have c3: "\<not> strings_Contains (''DDN CLI Version: v2.9.0'' @ [CHR 0x0A]) ''v2.28.0''" by code_simp
  have c4: "strings_TrimSpace (''DDN CLI Version: v2.9.0'' @ [CHR 0x0A]) = ''DDN CLI Version: v2.9.0''"
    by code_simp
  have b: "download_on broken_cdn ''v2.28.0'' fresh_disk =
      (Inr ?bp, snd (download_on broken_cdn ''v2.28.0'' fresh_disk))"
    using b1 by (metis prod.collapse)
  have c: "download_on stale_cdn ''v2.28.0'' fresh_disk =
      (Inr ?bp, snd (download_on stale_cdn ''v2.28.0'' fresh_disk))"
    using c1 by (metis prod.collapse)
  note t1 = install_succeeds_only_when_verified[of broken_cdn "getInstallDir_default broken_cdn"
      "downloadBinaryImpl broken_cdn" "''v2.28.0''" fresh_disk _ ?bp
      "snd (download_on broken_cdn ''v2.28.0'' fresh_disk)"]
  note t2 = install_succeeds_only_when_verified[of stale_cdn "getInstallDir_default stale_cdn"
      "downloadBinaryImpl stale_cdn" "''v2.28.0''" fresh_disk _ ?bp
      "snd (download_on stale_cdn ''v2.28.0'' fresh_disk)" "''DDN CLI Version: v2.9.0'' @ [CHR 0x0A]"]
  have r1: "fst (install_on broken_cdn ''v2.28.0'' fresh_disk) =
     Some (Wrap ''failed to verify downloaded binary'' ExecFailure)"
    using t1 b b2 by (simp add: install_on_def download_on_def)
  have r2: "fst (install_on stale_cdn ''v2.28.0'' fresh_disk) =
     Some (Msg ''downloaded binary reports version DDN CLI Version: v2.9.0, expected v2.28.0'')"
    using t2 c c2 c3 c4 by (simp add: install_on_def download_on_def)
  show ?thesis using a1 a2 a3 b1 b2 c1 c2 c3 r1 r2 by simp
qed

subsection \<open>uninstallVersion\<close>

lemma os_Stat_absent:
  "lookup (fs w) (pathKey m p) = None \<Longrightarrow> os_Stat m w p = Inl (absentErrno m (fs w) (pathKey m p))"
  by (simp add: os_Stat_def followKey_def)

text \<open>
  C10 (as amended). When \<^verbatim>\<open>os.Stat\<close> reports the directory of the tag as not existing,
  \<open>uninstallVersion\<close> returns the error that says the version is not installed and
  leaves the world as it was. When the directory has no entry and \<^verbatim>\<open>os.Stat\<close> fails
  with another error (a name on the way is not a directory, or a name is too long), the
  call goes on to the delete and returns the error that says the uninstall failed,
  wrapping that error, and again leaves the world as it was. The file system changes
  only when the path of the directory has an entry, and then by the recursive delete: a
  call that returns success leaves nothing at or below the directory.
\<close>

theorem uninstall_of_missing_version:
  "(gid = Inr installPath \<and> os_IsNotExist (os_Stat m w (filepath_Join m [installPath, version])) \<longrightarrow>
      uninstallVersion m gid version w =
        (Some (Msg (''version '' @ version @ '' is not installed'')), w)) \<and>
   (gid = Inr installPath \<and>
    lookup (fs w) (pathKey m (filepath_Join m [installPath, version])) = None \<and>
    os_Stat m w (filepath_Join m [installPath, version]) = Inl e \<and> e \<noteq> ENOENT \<longrightarrow>
      uninstallVersion m gid version w =
        (Some (Wrap (''failed to uninstall version '' @ version) (Errno e)), w)) \<and>
   (fs (snd (uninstallVersion m gid version w)) \<noteq> fs w \<longrightarrow>
      (\<exists>installPath n.
         gid = Inr installPath \<and>
         lookup (fs w) (pathKey m (filepath_Join m [installPath, version])) = Some n \<and>
         \<not> os_IsNotExist (os_Stat m w (filepath_Join m [installPath, version])) \<and>
         fs (snd (uninstallVersion m gid version w)) =
           eraseTree m (pathKey m (filepath_Join m [installPath, version])) (fs w))) \<and>
   (gid = Inr installPath \<and> fst (uninstallVersion m gid version w) = None \<longrightarrow>
      (\<forall>q. under m (pathKey m (filepath_Join m [installPath, version])) q \<longrightarrow>
           lookup (fs (snd (uninstallVersion m gid version w))) q = None))"
proof (intro conjI impI)
  assume "gid = Inr installPath \<and> os_IsNotExist (os_Stat m w (filepath_Join m [installPath, version]))"
  then show "uninstallVersion m gid version w =
        (Some (Msg (''version '' @ version @ '' is not installed'')), w)"
    by (simp add: uninstallVersion_def)
next
  let ?p = "filepath_Join m [installPath, version]"
  assume a: "gid = Inr installPath \<and> lookup (fs w) (pathKey m ?p) = None \<and>
    os_Stat m w ?p = Inl e \<and> e \<noteq> ENOENT"
  then have e: "absentErrno m (fs w) (pathKey m ?p) = e"
    using os_Stat_absent[of w m ?p] by simp
  have "os_RemoveAll m ?p w = (Some e, w)"
    using a e by (simp add: os_RemoveAll_def Let_def)
  then show "uninstallVersion m gid version w =
        (Some (Wrap (''failed to uninstall version '' @ version) (Errno e)), w)"
    using a by (simp add: uninstallVersion_def os_IsNotExist_def)
next
  assume "fs (snd (uninstallVersion m gid version w)) \<noteq> fs w"
  then show "\<exists>installPath n.
         gid = Inr installPath \<and>
         lookup (fs w) (pathKey m (filepath_Join m [installPath, version])) = Some n \<and>
         \<not> os_IsNotExist (os_Stat m w (filepath_Join m [installPath, version])) \<and>
         fs (snd (uninstallVersion m gid version w)) =
           eraseTree m (pathKey m (filepath_Join m [installPath, version])) (fs w)"
    by (cases gid)
      (auto simp: uninstallVersion_def os_RemoveAll_def Let_def
        split: if_splits option.splits prod.splits)
next
  assume a: "gid = Inr installPath \<and> fst (uninstallVersion m gid version w) = None"
  let ?p = "filepath_Join m [installPath, version]"
  let ?k = "pathKey m ?p"
  have ex: "\<not> os_IsNotExist (os_Stat m w ?p)"
    using a by (auto simp: uninstallVersion_def)
  have "lookup (fs w) ?k \<noteq> None"
  proof
    assume n: "lookup (fs w) ?k = None"
    then have ne: "absentErrno m (fs w) ?k \<noteq> ENOENT"
      using ex os_Stat_absent[of w m ?p] by (simp add: os_IsNotExist_def)
    then have "os_RemoveAll m ?p w = (Some (absentErrno m (fs w) ?k), w)"
      using n by (simp add: os_RemoveAll_def Let_def)
    then show False using a ex by (auto simp: uninstallVersion_def Let_def)
  qed
  then have "fs (snd (uninstallVersion m gid version w)) = eraseTree m ?k (fs w)"
    using a ex
    by (auto simp: uninstallVersion_def os_RemoveAll_def Let_def
        split: if_splits option.splits prod.splits)
  then show "\<forall>q. under m ?k q \<longrightarrow> lookup (fs (snd (uninstallVersion m gid version w))) q = None"
    by (simp add: lookup_eraseTree)
qed

theorem uninstall_of_missing_version_witness:
  "getInstallDir_default laptop = Inr ''/home/u/.ddnswitch'' \<and>
   os_IsNotExist (os_Stat laptop mismatched_install (filepath_Join laptop [''/home/u/.ddnswitch'', ''v9.9.9''])) \<and>
   uninstallVersion laptop (getInstallDir_default laptop) ''v9.9.9'' mismatched_install =
     (Some (Msg ''version v9.9.9 is not installed''), mismatched_install) \<and>
   lookup (fs root_is_file) (pathKey laptop (filepath_Join laptop [''/home/u/.ddnswitch'', ''v1.0.0''])) = None \<and>
   os_Stat laptop root_is_file (filepath_Join laptop [''/home/u/.ddnswitch'', ''v1.0.0'']) = Inl ENOTDIR \<and>
   uninstallVersion laptop (getInstallDir_default laptop) ''v1.0.0'' root_is_file =
     (Some (Wrap ''failed to uninstall version v1.0.0'' (Errno ENOTDIR)), root_is_file) \<and>
   fst (uninstallVersion laptop (getInstallDir_default laptop) ''v2.28.0'' mismatched_install) = None \<and>
   fs (snd (uninstallVersion laptop (getInstallDir_default laptop) ''v2.28.0'' mismatched_install)) \<noteq>
     fs mismatched_install \<and>
   under laptop (pathKey laptop (filepath_Join laptop [''/home/u/.ddnswitch'', ''v2.28.0'']))
     ''/home/u/.ddnswitch/v2.28.0/ddn'' \<and>
   lookup (fs (snd (uninstallVersion laptop (getInstallDir_default laptop) ''v2.28.0'' mismatched_install)))
     ''/home/u/.ddnswitch/v2.28.0/ddn'' = None"
proof -
  let ?gid = "getInstallDir_default laptop"
  have g: "?gid = Inr ''/home/u/.ddnswitch''" by code_simp
  have n: "os_IsNotExist (os_Stat laptop mismatched_install
      (filepath_Join laptop [''/home/u/.ddnswitch'', ''v9.9.9'']))" by code_simp
  have a: "lookup (fs root_is_file)
      (pathKey laptop (filepath_Join laptop [''/home/u/.ddnswitch'', ''v1.0.0''])) = None" by code_simp
  have b: "os_Stat laptop root_is_file (filepath_Join laptop [''/home/u/.ddnswitch'', ''v1.0.0'']) =
      Inl ENOTDIR" by code_simp
  have s: "fst (uninstallVersion laptop ?gid ''v2.28.0'' mismatched_install) = None" by code_simp
  have c: "fs (snd (uninstallVersion laptop ?gid ''v2.28.0'' mismatched_install)) \<noteq> fs mismatched_install"
    by code_simp
  have u: "under laptop (pathKey laptop (filepath_Join laptop [''/home/u/.ddnswitch'', ''v2.28.0'']))
     ''/home/u/.ddnswitch/v2.28.0/ddn''" by code_simp
  note t1 = uninstall_of_missing_version[of ?gid "''/home/u/.ddnswitch''" laptop mismatched_install "''v9.9.9''"]
  note t2 = uninstall_of_missing_version[of ?gid "''/home/u/.ddnswitch''" laptop mismatched_install "''v2.28.0''"]
  note t3 = uninstall_of_missing_version[of ?gid "''/home/u/.ddnswitch''" laptop root_is_file "''v1.0.0''" ENOTDIR]
  have r1: "uninstallVersion laptop ?gid ''v9.9.9'' mismatched_install =
     (Some (Msg ''version v9.9.9 is not installed''), mismatched_install)"
    using t1 g n by simp
  have r2: "lookup (fs (snd (uninstallVersion laptop ?gid ''v2.28.0'' mismatched_install)))
     ''/home/u/.ddnswitch/v2.28.0/ddn'' = None"
    using t2 g s u by blast
  have r3: "uninstallVersion laptop ?gid ''v1.0.0'' root_is_file =
     (Some (Wrap ''failed to uninstall version v1.0.0'' (Errno ENOTDIR)), root_is_file)"
    using t3 g a b by simp
  show ?thesis
    by (rule conjI[OF g conjI[OF n conjI[OF r1 conjI[OF a conjI[OF b conjI[OF r3
          conjI[OF s conjI[OF c conjI[OF u r2]]]]]]]]])
qed

text \<open>
  The claim as it stands fails where the directory of the tag does not exist and
  \<^verbatim>\<open>os.Stat\<close> says something else than that: with a regular file where the install
  directory should be, and with a tag of 256 bytes, the directory has no entry, and the
  call returns the error of a failed uninstall, not the one that says the version is
  not installed.
\<close>

theorem uninstall_counterexample:
  "getInstallDir_default laptop = Inr ''/home/u/.ddnswitch'' \<and>
   lookup (fs root_is_file) ''/home/u/.ddnswitch/v1.0.0'' = None \<and>
   os_Stat laptop root_is_file ''/home/u/.ddnswitch/v1.0.0'' = Inl ENOTDIR \<and>
   uninstallVersion laptop (getInstallDir_default laptop) ''v1.0.0'' root_is_file =
     (Some (Wrap ''failed to uninstall version v1.0.0'' (Errno ENOTDIR)), root_is_file) \<and>
   length long_tag = 256 \<and>
   lookup (fs fresh_disk) (''/home/u/.ddnswitch/'' @ long_tag) = None \<and>
   os_Stat laptop fresh_disk (''/home/u/.ddnswitch/'' @ long_tag) = Inl ENAMETOOLONG \<and>
   uninstallVersion laptop (getInstallDir_default laptop) long_tag fresh_disk =
     (Some (Wrap (''failed to uninstall version '' @ long_tag) (Errno ENAMETOOLONG)), fresh_disk)"
  by code_simp

subsection \<open>getSymlinkPathImpl\<close>

lemma filepath_Clean_nonempty: "filepath_Clean m p \<noteq> []"
  by (simp add: filepath_Clean_def Let_def)

lemma filepath_Join_nonempty:
  assumes "\<exists>e\<in>set elems. e \<noteq> []"
  shows "filepath_Join m elems \<noteq> []"
proof -
  have "dropWhile (\<lambda>e. e = []) elems \<noteq> []" using assms by (simp add: dropWhile_eq_Nil_conv)
  then obtain e es where "dropWhile (\<lambda>e. e = []) elems = e # es"
    by (cases "dropWhile (\<lambda>e. e = []) elems") auto
  then show ?thesis by (simp add: filepath_Join_def filepath_Clean_nonempty)
qed

lemma preferredDirs_nonempty: "d \<in> set (preferredDirs m homeDir) \<Longrightarrow> d \<noteq> []"
  using filepath_Join_nonempty[of "[homeDir, ''bin'']" m]
    filepath_Join_nonempty[of "[homeDir, ''.local'', ''bin'']" m]
  by (auto simp: preferredDirs_def)

lemma find_Some_mem: "find P xs = Some x \<Longrightarrow> x \<in> set xs \<and> P x"
  by (induction xs) (auto split: if_splits)

lemma matchInPath_eq:
  "matchInPath preferred pathDirs = (if preferred \<in> set pathDirs then Some preferred else None)"
  by (induction pathDirs) auto

lemma findPreferred_eq:
  "findPreferred prefs pathDirs = find (\<lambda>preferred. preferred \<in> set pathDirs) prefs"
  by (induction prefs) (auto simp: matchInPath_eq)

lemma firstWritable_eq:
  "fst (firstWritable m pathDirs w) =
     (case find (\<lambda>d. d \<noteq> [] \<and> d \<noteq> ''.'' \<and> markerCreatable m w d) pathDirs of
        Some d \<Rightarrow> d | None \<Rightarrow> [])"
proof (induction pathDirs)
  case Nil
  show ?case by simp
next
  case (Cons d ds)
  show ?case
  proof (cases "d = [] \<or> d = ''.''")
    case True
    then show ?thesis using Cons by auto
  next
    case False
    obtain r w1 where c: "os_Create m (filepath_Join m [d, ''.ddnswitch_test'']) w = (r, w1)"
      by (cases "os_Create m (filepath_Join m [d, ''.ddnswitch_test'']) w")
    show ?thesis
    proof (cases r)
      case (Inl e)
      then have "w1 = w" using c os_Create_fails_unchanged by blast
      then show ?thesis using False Inl c Cons by (simp add: markerCreatable_def)
    next
      case (Inr handle)
      then show ?thesis using False c by (simp add: markerCreatable_def)
    qed
  qed
qed

lemma firstWritable_none_unchanged:
  "find (\<lambda>d. d \<noteq> [] \<and> d \<noteq> ''.'' \<and> markerCreatable m w d) pathDirs = None \<Longrightarrow>
   firstWritable m pathDirs w = ([], w)"
proof (induction pathDirs)
  case Nil
  show ?case by simp
next
  case (Cons d ds)
  show ?case
  proof (cases "d = [] \<or> d = ''.''")
    case True
    then show ?thesis using Cons by auto
  next
    case False
    obtain r w1 where c: "os_Create m (filepath_Join m [d, ''.ddnswitch_test'']) w = (r, w1)"
      by (cases "os_Create m (filepath_Join m [d, ''.ddnswitch_test'']) w")
    from Cons.prems False have nm: "\<not> markerCreatable m w d" by (auto split: if_splits)
    then obtain e where r: "r = Inl e" using c by (cases r) (auto simp: markerCreatable_def)
    then have "w1 = w" using c os_Create_fails_unchanged by blast
    then show ?thesis using Cons False c r nm by (auto split: if_splits)
  qed
qed

lemma firstWritable_found:
  "find (\<lambda>d. d \<noteq> [] \<and> d \<noteq> ''.'' \<and> markerCreatable m w d) pathDirs = Some d \<Longrightarrow>
   firstWritable m pathDirs w =
     (d, snd (os_Remove m (filepath_Join m [d, ''.ddnswitch_test''])
               (snd (os_Create m (filepath_Join m [d, ''.ddnswitch_test'']) w))))"
proof (induction pathDirs)
  case Nil
  then show ?case by simp
next
  case (Cons x xs)
  show ?case
  proof (cases "x = [] \<or> x = ''.''")
    case True
    then show ?thesis using Cons by auto
  next
    case False
    obtain r w1 where c: "os_Create m (filepath_Join m [x, ''.ddnswitch_test'']) w = (r, w1)"
      by (cases "os_Create m (filepath_Join m [x, ''.ddnswitch_test'']) w")
    show ?thesis
    proof (cases r)
      case (Inl e)
      then have w1: "w1 = w" using c os_Create_fails_unchanged by blast
      have "\<not> markerCreatable m w x" using c Inl by (simp add: markerCreatable_def)
      then have "find (\<lambda>d. d \<noteq> [] \<and> d \<noteq> ''.'' \<and> markerCreatable m w d) xs = Some d"
        using Cons.prems by simp
      then show ?thesis using Cons.IH False c Inl w1 by simp
    next
      case (Inr handle)
      then have "markerCreatable m w x" using c by (simp add: markerCreatable_def)
      then have "d = x" using Cons.prems False by simp
      then show ?thesis using False c Inr by simp
    qed
  qed
qed

lemma os_Mkdir_makes_dir:
  assumes "os_Mkdir m k w = (None, w')"
  shows "statKey m w' k = Inr (Dir True)"
proof -
  from assms have "w' = w\<lparr>fs := store k (Dir True) (fs w)\<rparr>"
    by (auto simp: os_Mkdir_def split: option.splits)
  then have "lookup (fs w') k = Some (Dir True)" by (simp add: lookup_store)
  then show ?thesis by (simp add: statKey_def)
qed

lemma mkdirAllKey_makes_dir:
  assumes "mkdirAllKey m n k w = (None, w')"
  shows "\<exists>wr. statKey m w' k = Inr (Dir wr)"
proof (cases "statKey m w k")
  case (Inr node)
  then show ?thesis using assms
    by (cases node) (auto simp: mkdirAllKey.simps[of m n k w])
next
  case (Inl e)
  have "\<exists>w1. os_Mkdir m k w1 = (None, w')"
  proof (cases n)
    case 0
    then show ?thesis using assms Inl by (auto simp: mkdirAllKey.simps[of m 0 k w])
  next
    case (Suc n')
    show ?thesis
    proof (cases "filepath_Dir m k = k")
      case True
      then show ?thesis using assms Inl Suc
        by (auto simp: mkdirAllKey.simps[of m "Suc n'" k w])
    next
      case False
      obtain r1 w1 where up: "mkdirAllKey m n' (filepath_Dir m k) w = (r1, w1)"
        by (cases "mkdirAllKey m n' (filepath_Dir m k) w")
      show ?thesis using assms Inl Suc False up
        by (cases r1) (auto simp: mkdirAllKey.simps[of m "Suc n'" k w])
    qed
  qed
  then show ?thesis using os_Mkdir_makes_dir by blast
qed

lemma os_MkdirAll_makes_dir:
  "os_MkdirAll m p w = (None, w') \<Longrightarrow> \<exists>wr. os_Stat m w' p = Inr (Dir wr)"
  using mkdirAllKey_makes_dir[of m "length (pathKey m p)" "pathKey m p" w w']
  by (simp add: os_MkdirAll_def os_Stat_statKey)

text \<open>
  C8 (as amended). The directory of the link is chosen in three tiers. First, the first
  of \<^verbatim>\<open>~/bin\<close>, \<^verbatim>\<open>~/.local/bin\<close>, \<^verbatim>\<open>/usr/local/bin\<close> that is an entry of the search list;
  nothing is touched. Else the first entry of the search list, other than the empty one
  and \<^verbatim>\<open>.\<close>, in which the marker file can be created; the marker is created there (one
  that was there is emptied), its removal is tried and the outcome of the removal is
  ignored. Else \<^verbatim>\<open>~/bin\<close>, made with \<^verbatim>\<open>MkdirAll\<close>: when that succeeds \<^verbatim>\<open>~/bin\<close> is a
  directory afterwards, when it fails its error is returned in place of a path. The
  path returned is the chosen directory joined with the name of the binary, with
  \<^verbatim>\<open>.exe\<close> on Windows.
\<close>

theorem link_directory_three_tiers:
  "(preferredOnPath m homeDir = Some d \<longrightarrow>
      getSymlinkPathImpl m homeDir w = (Inr (withExe m (filepath_Join m [d, binName])), w)) \<and>
   (preferredOnPath m homeDir = None \<and> firstCreatable m w = Some d \<longrightarrow>
      getSymlinkPathImpl m homeDir w =
        (Inr (withExe m (filepath_Join m [d, binName])),
         snd (os_Remove m (filepath_Join m [d, ''.ddnswitch_test''])
                (snd (os_Create m (filepath_Join m [d, ''.ddnswitch_test'']) w))))) \<and>
   (preferredOnPath m homeDir = None \<and> firstCreatable m w = None \<longrightarrow>
      getSymlinkPathImpl m homeDir w =
        (case os_MkdirAll m (filepath_Join m [homeDir, ''bin'']) w of
           (Some e, w2) \<Rightarrow> (Inl (Errno e), w2)
         | (None, w2) \<Rightarrow>
             (Inr (withExe m (filepath_Join m [filepath_Join m [homeDir, ''bin''], binName])), w2))) \<and>
   (os_MkdirAll m (filepath_Join m [homeDir, ''bin'']) w = (None, w2) \<longrightarrow>
      (\<exists>wr. os_Stat m w2 (filepath_Join m [homeDir, ''bin'']) = Inr (Dir wr)))"
proof -
  let ?pathDirs = "splitOn (PathListSeparator m) (PATH m)"
  have fp: "findPreferred (preferredDirs m homeDir) ?pathDirs = preferredOnPath m homeDir"
    by (simp add: findPreferred_eq preferredOnPath_def)
  have t1: "getSymlinkPathImpl m homeDir w = (Inr (withExe m (filepath_Join m [d, binName])), w)"
    if p: "preferredOnPath m homeDir = Some d"
  proof -
    have "d \<in> set (preferredDirs m homeDir)"
      using p find_Some_mem unfolding preferredOnPath_def by fastforce
    then have d: "d \<noteq> []" by (rule preferredDirs_nonempty)
    show ?thesis unfolding getSymlinkPathImpl_def Let_def fp p using d by simp
  qed
  have t2: "getSymlinkPathImpl m homeDir w =
        (Inr (withExe m (filepath_Join m [d, binName])),
         snd (os_Remove m (filepath_Join m [d, ''.ddnswitch_test''])
                (snd (os_Create m (filepath_Join m [d, ''.ddnswitch_test'']) w))))"
    if p: "preferredOnPath m homeDir = None \<and> firstCreatable m w = Some d"
  proof -
    have f: "find (\<lambda>d. d \<noteq> [] \<and> d \<noteq> ''.'' \<and> markerCreatable m w d) ?pathDirs = Some d"
      using p by (simp add: firstCreatable_def)
    then have d: "d \<noteq> []" using find_Some_mem by fastforce
    show ?thesis
      unfolding getSymlinkPathImpl_def Let_def fp conjunct1[OF p] firstWritable_found[OF f]
      using d by simp
  qed
  have t3: "getSymlinkPathImpl m homeDir w =
        (case os_MkdirAll m (filepath_Join m [homeDir, ''bin'']) w of
           (Some e, w2) \<Rightarrow> (Inl (Errno e), w2)
         | (None, w2) \<Rightarrow>
             (Inr (withExe m (filepath_Join m [filepath_Join m [homeDir, ''bin''], binName])), w2))"
    if p: "preferredOnPath m homeDir = None \<and> firstCreatable m w = None"
  proof -
    have f: "find (\<lambda>d. d \<noteq> [] \<and> d \<noteq> ''.'' \<and> markerCreatable m w d) ?pathDirs = None"
      using p by (simp add: firstCreatable_def)
    show ?thesis
      unfolding getSymlinkPathImpl_def Let_def fp conjunct1[OF p] firstWritable_none_unchanged[OF f]
      by simp
  qed
  have t4: "\<exists>wr. os_Stat m w2 (filepath_Join m [homeDir, ''bin'']) = Inr (Dir wr)"
    if "os_MkdirAll m (filepath_Join m [homeDir, ''bin'']) w = (None, w2)"
    using that by (rule os_MkdirAll_makes_dir)
  show ?thesis
    by (rule conjI[OF impI[OF t1] conjI[OF impI[OF t2] conjI[OF impI[OF t3] impI[OF t4]]]])
qed

theorem link_directory_three_tiers_witness:
  "preferredOnPath laptop ''/home/u'' = Some ''/home/u/bin'' \<and>
   getSymlinkPathImpl laptop ''/home/u'' fresh_disk = (Inr ''/home/u/bin/ddn'', fresh_disk) \<and>
   preferredOnPath tools_only ''/home/u'' = None \<and>
   firstCreatable tools_only stale_marker_disk = Some ''/opt/tools'' \<and>
   lookup (fs stale_marker_disk) ''/opt/tools/.ddnswitch_test'' = Some (File ''old'' 420) \<and>
   getSymlinkPathImpl tools_only ''/home/u'' stale_marker_disk = (Inr ''/opt/tools/ddn'', dot_first_disk) \<and>
   lookup (fs dot_first_disk) ''/opt/tools/.ddnswitch_test'' = None \<and>
   preferredOnPath system_only ''/home/u'' = None \<and>
   firstCreatable system_only no_home_bin = None \<and>
   os_Stat system_only no_home_bin ''/home/u/bin'' = Inl ENOENT \<and>
   fst (os_MkdirAll system_only (filepath_Join system_only [''/home/u'', ''bin'']) no_home_bin) = None \<and>
   getSymlinkPathImpl system_only ''/home/u'' no_home_bin =
     (Inr ''/home/u/bin/ddn'',
      snd (os_MkdirAll system_only (filepath_Join system_only [''/home/u'', ''bin'']) no_home_bin)) \<and>
   os_Stat system_only
     (snd (os_MkdirAll system_only (filepath_Join system_only [''/home/u'', ''bin'']) no_home_bin))
     ''/home/u/bin'' = Inr (Dir True)"
proof -
  let ?mk = "os_MkdirAll system_only (filepath_Join system_only [''/home/u'', ''bin'']) no_home_bin"
  have a: "preferredOnPath laptop ''/home/u'' = Some ''/home/u/bin''" by code_simp
  have b: "preferredOnPath tools_only ''/home/u'' = None" by code_simp
  have b2: "firstCreatable tools_only stale_marker_disk = Some ''/opt/tools''" by code_simp
  have b3: "lookup (fs stale_marker_disk) ''/opt/tools/.ddnswitch_test'' = Some (File ''old'' 420)"
    by code_simp
  have b4: "snd (os_Remove tools_only (filepath_Join tools_only [''/opt/tools'', ''.ddnswitch_test''])
                (snd (os_Create tools_only (filepath_Join tools_only [''/opt/tools'', ''.ddnswitch_test''])
                   stale_marker_disk))) = dot_first_disk" by code_simp
  have b5: "lookup (fs dot_first_disk) ''/opt/tools/.ddnswitch_test'' = None" by code_simp
  have c: "preferredOnPath system_only ''/home/u'' = None" by code_simp
  have c2: "firstCreatable system_only no_home_bin = None" by code_simp
  have c3: "os_Stat system_only no_home_bin ''/home/u/bin'' = Inl ENOENT" by code_simp
  have d: "fst ?mk = None" by code_simp
  then have d': "?mk = (None, snd ?mk)" by (metis prod.collapse)
  have j1: "withExe laptop (filepath_Join laptop [''/home/u/bin'', binName]) = ''/home/u/bin/ddn''"
    by code_simp
  have j2: "withExe tools_only (filepath_Join tools_only [''/opt/tools'', binName]) = ''/opt/tools/ddn''"
    by code_simp
  have j3: "withExe system_only (filepath_Join system_only
       [filepath_Join system_only [''/home/u'', ''bin''], binName]) = ''/home/u/bin/ddn''"
    by code_simp
  have j4: "filepath_Join system_only [''/home/u'', ''bin''] = ''/home/u/bin''" by code_simp
  note t1 = link_directory_three_tiers[of laptop "''/home/u''" "''/home/u/bin''" fresh_disk]
  note t2 = link_directory_three_tiers[of tools_only "''/home/u''" "''/opt/tools''" stale_marker_disk]
  note t3 = link_directory_three_tiers[of system_only "''/home/u''" "''/home/u/bin''" no_home_bin "snd ?mk"]
  have r1: "getSymlinkPathImpl laptop ''/home/u'' fresh_disk = (Inr ''/home/u/bin/ddn'', fresh_disk)"
    using t1 a j1 by simp
  have r2: "getSymlinkPathImpl tools_only ''/home/u'' stale_marker_disk =
      (Inr ''/opt/tools/ddn'', dot_first_disk)"
    using t2 b b2 b4 j2 by simp
  have r3: "getSymlinkPathImpl system_only ''/home/u'' no_home_bin = (Inr ''/home/u/bin/ddn'', snd ?mk)"
  proof -
    from t3 c c2 have "getSymlinkPathImpl system_only ''/home/u'' no_home_bin =
        (case ?mk of
           (Some e, w2) \<Rightarrow> (Inl (Errno e), w2)
         | (None, w2) \<Rightarrow>
             (Inr (withExe system_only (filepath_Join system_only
                [filepath_Join system_only [''/home/u'', ''bin''], binName])), w2))"
      by blast
    then show ?thesis by (subst (asm) d') (simp add: j3)
  qed
  have r4: "os_Stat system_only (snd ?mk) ''/home/u/bin'' = Inr (Dir True)" by code_simp
  from t3 d' have "\<exists>wr. os_Stat system_only (snd ?mk) (filepath_Join system_only [''/home/u'', ''bin'']) =
      Inr (Dir wr)" by blast
  show ?thesis
    by (rule conjI[OF a conjI[OF r1 conjI[OF b conjI[OF b2 conjI[OF b3 conjI[OF r2 conjI[OF b5
          conjI[OF c conjI[OF c2 conjI[OF c3 conjI[OF d conjI[OF r3 r4]]]]]]]]]]]])
qed

text \<open>
  The claim as it stands fails on three inputs. With the search list
  \<^verbatim>\<open>.:/opt/tools\<close> the marker can be created and deleted in the current directory,
  which comes first, and the resolver passes it over. With \<^verbatim>\<open>/opt/ro\<close> first, a
  directory that is not writable but holds an old marker file that is, the marker can
  be created and cannot be deleted, and the resolver chooses \<^verbatim>\<open>/opt/ro\<close> and leaves the
  marker there, emptied, although \<^verbatim>\<open>/opt/tools\<close> comes next and would allow both. With
  nothing to choose from the search list and a home directory in which \<^verbatim>\<open>bin\<close> cannot
  be made, the resolver returns no path but the error.
\<close>

theorem link_directory_counterexample:
  "splitOn (PathListSeparator dot_first) (PATH dot_first) = [''.'', ''/opt/tools''] \<and>
   findPreferred (preferredDirs dot_first ''/home/u'') [''.'', ''/opt/tools''] = None \<and>
   markerCreatable dot_first dot_first_disk ''.'' \<and>
   fst (os_Remove dot_first ''.ddnswitch_test''
          (snd (os_Create dot_first ''.ddnswitch_test'' dot_first_disk))) = None \<and>
   withExe dot_first (filepath_Join dot_first [''.'', binName]) = ''ddn'' \<and>
   fst (getSymlinkPathImpl dot_first ''/home/u'' dot_first_disk) = Inr ''/opt/tools/ddn'' \<and>
   splitOn (PathListSeparator readonly_first) (PATH readonly_first) = [''/opt/ro'', ''/opt/tools''] \<and>
   findPreferred (preferredDirs readonly_first ''/home/u'') [''/opt/ro'', ''/opt/tools''] = None \<and>
   markerCreatable readonly_first readonly_marker_disk ''/opt/ro'' \<and>
   fst (os_Remove readonly_first ''/opt/ro/.ddnswitch_test''
          (snd (os_Create readonly_first ''/opt/ro/.ddnswitch_test'' readonly_marker_disk))) =
     Some EACCES \<and>
   fst (getSymlinkPathImpl readonly_first ''/home/u'' readonly_marker_disk) = Inr ''/opt/ro/ddn'' \<and>
   lookup (fs (snd (getSymlinkPathImpl readonly_first ''/home/u'' readonly_marker_disk)))
     ''/opt/ro/.ddnswitch_test'' = Some (File [] 420) \<and>
   splitOn (PathListSeparator system_only) (PATH system_only) = [''/usr/bin''] \<and>
   findPreferred (preferredDirs system_only ''/home/u'') [''/usr/bin''] = None \<and>
   getSymlinkPathImpl system_only ''/home/u'' locked_home = (Inl (Errno EACCES), locked_home)"
  by code_simp

subsection \<open>Regular files, links to them, and what the calls change\<close>

















lemma reportActive_fs [simp]: "fs (reportActive m version w) = fs w"
  by (simp add: reportActive_def Let_def split: exec_result.splits)

lemma reportActive_installCalls [simp]:
  "installCalls (reportActive m version w) = installCalls w"
  by (simp add: reportActive_def println_def Let_def split: exec_result.splits)











subsection \<open>switchToVersion\<close>




























end
